theory Spec2Isabelle
  imports Complex_Main "HOL-Library.AList" "HOL-Library.Word"
    "HOL-Library.List_Lexorder" "HOL-Library.Char_ord"
begin

section \<open>Conventions of the embedding\<close>

text \<open>
  The development embeds the multiplayer core of the coin flip game: the room state
  machine (\<^verbatim>\<open>internal/network/room.go\<close>), the relay of the WebSocket server, the wire
  envelope, and the reconnect logic of the network client.

  \<^item> A Go \<^verbatim>\<open>float64\<close> is an exact \<^typ>\<open>real\<close>: rounding, infinities and NaN are not
    modelled.
  \<^item> A Go \<^verbatim>\<open>time.Time\<close> is the instant it denotes, in nanoseconds (\<^typ>\<open>int\<close>), a
    \<^verbatim>\<open>time.Duration\<close> is a number of nanoseconds. Every operation that reads the clock
    receives the reading as its argument \<open>now\<close>.
  \<^item> A Go map is an association list with the operations of \<^verbatim>\<open>AList\<close>
    (\<open>map_of\<close> to read, \<open>AList.update\<close> to write, \<open>AList.delete\<close> to delete); a
    \<^verbatim>\<open>range\<close> loop visits the list in its order (Go leaves the order open).
  \<^item> A pointer to a struct that is never shared for writing is the struct's value;
    a nil pointer is \<open>None\<close>.
  \<^item> A mutex is not modelled: each locked operation is one atomic function on the state.
    A \<^verbatim>\<open>go\<close> statement records a task in the state; a timer is a flag in the state;
    the scheduler is the step relation at the end of the room's section.
  \<^item> A panic (a nil dereference) is the error value \<open>PanicNilDeref\<close>.
\<close>

section \<open>Wire types (messages)\<close>

type_synonym Side = string

definition Heads :: Side where
  "Heads = ''heads''"

definition Tails :: Side where
  "Tails = ''tails''"

type_synonym MessageType = string

definition MsgJoinRoom :: MessageType where
  "MsgJoinRoom = ''join_room''"

definition MsgLeaveRoom :: MessageType where
  "MsgLeaveRoom = ''leave_room''"

definition MsgRoomUpdate :: MessageType where
  "MsgRoomUpdate = ''room_update''"

definition MsgPlayerList :: MessageType where
  "MsgPlayerList = ''player_list''"

definition MsgGameStart :: MessageType where
  "MsgGameStart = ''game_start''"

definition MsgBetPhase :: MessageType where
  "MsgBetPhase = ''bet_phase''"

definition MsgBetPlaced :: MessageType where
  "MsgBetPlaced = ''bet_placed''"

definition MsgRevealPhase :: MessageType where
  "MsgRevealPhase = ''reveal_phase''"

definition MsgGameResult :: MessageType where
  "MsgGameResult = ''game_result''"

definition MsgRoundEnd :: MessageType where
  "MsgRoundEnd = ''round_end''"

definition MsgTimerUpdate :: MessageType where
  "MsgTimerUpdate = ''timer_update''"

definition MsgSeedCommit :: MessageType where
  "MsgSeedCommit = ''seed_commit''"

definition MsgSeedReveal :: MessageType where
  "MsgSeedReveal = ''seed_reveal''"

definition MsgError :: MessageType where
  "MsgError = ''error''"

datatype GameState = StateWaiting | StateBetting | StateRevealing | StateResult | StatePaused

fun GameState_string :: "GameState \<Rightarrow> string" where
  "GameState_string StateWaiting = ''waiting''"
| "GameState_string StateBetting = ''betting''"
| "GameState_string StateRevealing = ''revealing''"
| "GameState_string StateResult = ''result''"
| "GameState_string StatePaused = ''paused''"

record RoomJoinData =
  PlayerName :: string
  Balance :: real

record PlayerInfo =
  ID :: string
  Name :: string
  Balance :: real
  IsReady :: bool
  HasBet :: bool
  IsOnline :: bool

record RoomUpdateData =
  RoomID :: string
  Players :: "PlayerInfo list"
  GameState :: GameState
  Timer :: int
  MinPlayers :: int
  MaxPlayers :: int

record BetData =
  PlayerID :: string
  Amount :: real
  Choice :: Side
  BetID :: string

record TimerData =
  Phase :: GameState
  SecondsLeft :: int
  TotalSeconds :: int

record SeedCommitData =
  PlayerID :: string
  SeedHash :: string
  RoundID :: string

record SeedRevealData =
  PlayerID :: string
  Seed :: string
  RoundID :: string

record PlayerResult =
  PlayerID :: string
  PlayerName :: string
  Bet :: "BetData option"
  Won :: bool
  Payout :: real
  NewBalance :: real

record GameResultData =
  RoundID :: string
  CoinResult :: Side
  FinalSeed :: string
  Winners :: "PlayerResult list"
  Losers :: "PlayerResult list"
  Timestamp :: int

record ErrorData =
  Code :: string
  Message :: string
  Details :: string

text \<open>
  The field \<^verbatim>\<open>Data interface{}\<close> of an envelope holds a value of any Go type. The
  model has the types this package stores there (a payload struct or a pointer to one, a
  string, nil) and the types \<^verbatim>\<open>json.Unmarshal\<close> stores in an \<^verbatim>\<open>interface{}\<close>
  (nil, bool, float64, string, \<^verbatim>\<open>[]interface{}\<close>, \<^verbatim>\<open>map[string]interface{}\<close>).
\<close>

datatype iface =
    GoNil
  | GoBool bool
  | GoFloat64 real
  | GoString string
  | GoSlice "iface list"
  | GoMap "(string \<times> iface) list"
  | OfRoomJoinData RoomJoinData
  | OfRoomUpdateData RoomUpdateData
  | OfBetData BetData
  | OfTimerData TimerData
  | OfSeedCommitData SeedCommitData
  | OfSeedRevealData SeedRevealData
  | OfGameResultData GameResultData
  | OfErrorData ErrorData

record Message =
  Type :: MessageType
  RoomID :: string
  PlayerID :: string
  Timestamp :: int
  Data :: iface

definition NewMessage :: "MessageType \<Rightarrow> string \<Rightarrow> string \<Rightarrow> iface \<Rightarrow> int \<Rightarrow> Message" where
  "NewMessage msgType roomID playerID data now =
     \<lparr>Message.Type = msgType, Message.RoomID = roomID, Message.PlayerID = playerID,
      Message.Timestamp = now, Message.Data = data\<rparr>"

section \<open>The room state machine\<close>

subsection \<open>State\<close>

datatype error =
    ErrRoomFull
  | ErrRoomNotFound
  | ErrPlayerNotFound
  | ErrInvalidGamePhase
  | ErrBettingClosed
  | ErrPlayerAlreadyBet
  | ErrNoActiveRound
  | ErrNotEnoughPlayers
  | ErrInvalidBetAmount
  | ErrInsufficientBalance
  | ErrSeedEmpty
  | ErrMarshal
  | ErrUnmarshal
  | ErrNotConnected
  | ErrNotInRoom
  | ErrInvalidURL
  | ErrDialFailed
  | ErrConnectionLost
  | ErrMaxReconnects
  | ErrWriteFailed
  | PanicNilDeref
  | PanicClosedChannel

record RoomPlayer =
  ID :: string
  Name :: string
  Balance :: real
  IsReady :: bool
  IsOnline :: bool
  LastSeen :: int
  CurrentBet :: "BetData option"
  TotalGames :: int
  TotalWins :: int
  NetProfit :: real

record GameRound =
  ID :: string
  StartTime :: int
  Bets :: "(string \<times> BetData) list"
  SeedCommits :: "(string \<times> string) list"
  SeedReveals :: "(string \<times> string) list"
  FinalSeed :: string
  CoinResult :: Side
  Results :: "(string \<times> PlayerResult) list"
  State :: GameState

record RoomConfig =
  MinPlayers :: int
  MaxPlayers :: int
  MinBet :: real
  MaxBet :: real
  PayoutRatio :: real
  BettingDuration :: int
  ResultDuration :: int
  RequireConsensus :: bool

datatype LogLevel = Debug | Info | Warn | Error

text \<open>
  A goroutine started by a \<^verbatim>\<open>go\<close> statement of the room and not yet run:
  the auto-start of \<^verbatim>\<open>checkAndStartGame\<close>, the start of the next round two seconds
  after a result (\<^verbatim>\<open>startResultPhase\<close>), the countdown of \<^verbatim>\<open>startBettingPhase\<close>.
\<close>

datatype Task = TaskAutoStart | TaskNextRound | TaskBroadcastTimer

text \<open>
  The fields of \<^verbatim>\<open>GameRoom\<close>, without the mutex and the stop channel. \<open>timer\<close> is
  \<open>None\<close> for a nil \<^verbatim>\<open>*time.Timer\<close>, \<open>Some True\<close> for a timer that will fire and
  \<open>Some False\<close> for one that has fired or was stopped. \<open>eventChan\<close> is the content
  of the buffered channel, oldest first. The last three fields are the runtime around the
  struct: the lines written to the logger, the number of pending result timers
  (\<^verbatim>\<open>time.AfterFunc\<close> in \<^verbatim>\<open>startResultPhase\<close>), the goroutines not yet run.
\<close>

record GameRoom =
  id' :: string
  name :: string
  players :: "(string \<times> RoomPlayer) list"
  gameState :: GameState
  currentRound :: "GameRound option"
  config :: RoomConfig
  timer :: "bool option"
  timerEnd :: int
  eventChan :: "Message list"
  totalRounds :: int
  createdAt :: int
  lastActivity :: int
  logs :: "(LogLevel \<times> string) list"
  resultTimers :: nat
  spawned :: "Task list"

definition DefaultMinPlayers :: int where
  "DefaultMinPlayers = 2"

definition DefaultMaxPlayers :: int where
  "DefaultMaxPlayers = 8"

definition Second :: int where
  "Second = 1000000000"

definition BettingPhaseDuration :: int where
  "BettingPhaseDuration = 60 * Second"

definition ResultPhaseDuration :: int where
  "ResultPhaseDuration = 10 * Second"

definition eventChanCap :: nat where
  "eventChanCap = 100"

definition DefaultRoomConfig :: RoomConfig where
  "DefaultRoomConfig =
     \<lparr>RoomConfig.MinPlayers = DefaultMinPlayers, RoomConfig.MaxPlayers = DefaultMaxPlayers,
      MinBet = 1, MaxBet = 100, PayoutRatio = 2,
      BettingDuration = BettingPhaseDuration, ResultDuration = ResultPhaseDuration,
      RequireConsensus = True\<rparr>"

definition NewGameRoom :: "string \<Rightarrow> string \<Rightarrow> RoomConfig option \<Rightarrow> int \<Rightarrow> GameRoom" where
  "NewGameRoom rid rname cfg now =
     \<lparr>id' = rid, name = rname, players = [], gameState = StateWaiting, currentRound = None,
      config = (case cfg of None \<Rightarrow> DefaultRoomConfig | Some c \<Rightarrow> c),
      timer = None, timerEnd = 0, eventChan = [], totalRounds = 0,
      createdAt = now, lastActivity = now, logs = [], resultTimers = 0, spawned = []\<rparr>"

subsection \<open>Helpers: logging, formatting, durations\<close>

definition logf :: "GameRoom \<Rightarrow> LogLevel \<Rightarrow> string \<Rightarrow> GameRoom" where
  "logf r lvl msg = r\<lparr>logs := logs r @ [(lvl, msg)]\<rparr>"

text \<open>\<^verbatim>\<open>%d\<close> of \<^verbatim>\<open>fmt.Sprintf\<close>: the decimal digits, with a minus sign.\<close>

fun itoa_nat :: "nat \<Rightarrow> string" where
  "itoa_nat n =
     (if n < 10 then [char_of (48 + n)] else itoa_nat (n div 10) @ [char_of (48 + n mod 10)])"

declare itoa_nat.simps [simp del]

definition itoa :: "int \<Rightarrow> string" where
  "itoa i = (if i < 0 then CHR ''-'' # itoa_nat (nat (- i)) else itoa_nat (nat i))"

text \<open>
  \<^verbatim>\<open>int(d.Seconds())\<close>: the whole seconds of a duration, rounded toward zero.
\<close>

definition seconds_of :: "int \<Rightarrow> int" where
  "seconds_of d = (if d < 0 then - ((- d) div Second) else d div Second)"

definition generateBetID :: "int \<Rightarrow> string" where
  "generateBetID now = ''bet_'' @ itoa now"

definition generateRoundID :: "GameRoom \<Rightarrow> int \<Rightarrow> string" where
  "generateRoundID r now = ''round_'' @ id' r @ ''_'' @ itoa now"

subsection \<open>Events\<close>

text \<open>
  \<^verbatim>\<open>broadcastMessage\<close>: a send on the buffered channel inside a \<^verbatim>\<open>select\<close> with a
  \<^verbatim>\<open>default\<close> branch. With room in the buffer the message is queued; otherwise the
  default branch logs a warning and the message is gone.
\<close>

definition broadcastMessage :: "GameRoom \<Rightarrow> Message \<Rightarrow> GameRoom" where
  "broadcastMessage r msg =
     (if length (eventChan r) < eventChanCap
      then r\<lparr>eventChan := eventChan r @ [msg]\<rparr>
      else logf r Warn ''Event channel full, dropping message'')"

definition playerInfo :: "RoomPlayer \<Rightarrow> PlayerInfo" where
  "playerInfo player =
     \<lparr>PlayerInfo.ID = RoomPlayer.ID player, PlayerInfo.Name = RoomPlayer.Name player,
      PlayerInfo.Balance = RoomPlayer.Balance player,
      PlayerInfo.IsReady = RoomPlayer.IsReady player,
      HasBet = (CurrentBet player \<noteq> None),
      PlayerInfo.IsOnline = RoomPlayer.IsOnline player\<rparr>"

definition broadcastRoomUpdate :: "GameRoom \<Rightarrow> int \<Rightarrow> GameRoom" where
  "broadcastRoomUpdate r now =
     (let updateData =
        \<lparr>RoomUpdateData.RoomID = id' r,
         Players = map (\<lambda>(k, player). playerInfo player) (players r),
         GameState = gameState r,
         Timer = seconds_of (timerEnd r - now),
         RoomUpdateData.MinPlayers = RoomConfig.MinPlayers (config r),
         RoomUpdateData.MaxPlayers = RoomConfig.MaxPlayers (config r)\<rparr>
      in broadcastMessage r (NewMessage MsgRoomUpdate (id' r) [] (OfRoomUpdateData updateData) now))"

subsection \<open>Operations\<close>

text \<open>
  \<^verbatim>\<open>checkAndStartGame\<close> does not start the round itself: it starts a goroutine that
  calls \<^verbatim>\<open>StartGame\<close>, which takes the lock after the caller has released it.
\<close>

definition checkAndStartGame :: "GameRoom \<Rightarrow> GameRoom" where
  "checkAndStartGame r =
     (if int (length (players r)) \<ge> RoomConfig.MinPlayers (config r) \<and> gameState r = StateWaiting
      then (logf r Info ''Auto-starting betting round'')\<lparr>spawned := spawned r @ [TaskAutoStart]\<rparr>
      else r)"

definition AddPlayer :: "GameRoom \<Rightarrow> int \<Rightarrow> string \<Rightarrow> string \<Rightarrow> real \<Rightarrow> error + GameRoom" where
  "AddPlayer r now playerID playerName balance =
     (if int (length (players r)) \<ge> RoomConfig.MaxPlayers (config r) then Inl ErrRoomFull
      else
        let player =
              \<lparr>RoomPlayer.ID = playerID, RoomPlayer.Name = playerName,
               RoomPlayer.Balance = balance, RoomPlayer.IsReady = False,
               RoomPlayer.IsOnline = True, LastSeen = now, CurrentBet = None,
               TotalGames = 0, TotalWins = 0, NetProfit = 0\<rparr>;
            r1 = r\<lparr>players := AList.update playerID player (players r), lastActivity := now\<rparr>;
            r2 = logf r1 Info ''Player joined room'';
            r3 = broadcastRoomUpdate r2 now
        in Inr (checkAndStartGame r3))"

definition pauseGame :: "GameRoom \<Rightarrow> int \<Rightarrow> GameRoom" where
  "pauseGame r now =
     (let r1 = r\<lparr>timer := (case timer r of None \<Rightarrow> None | Some t \<Rightarrow> Some False)\<rparr>;
          r2 = r1\<lparr>gameState := StatePaused\<rparr>;
          r3 = logf r2 Info ''Game paused''
      in broadcastRoomUpdate r3 now)"

text \<open>
  The block "Cancel any active bet" of \<^verbatim>\<open>RemovePlayer\<close>: \<open>player\<close> is the pointer read
  from the roster, so the refund is written to the roster's entry.
\<close>

definition cancelActiveBet :: "GameRoom \<Rightarrow> string \<Rightarrow> RoomPlayer \<Rightarrow> GameRoom" where
  "cancelActiveBet r playerID player =
     (case currentRound r of
        None \<Rightarrow> r
      | Some rnd \<Rightarrow>
          (case map_of (Bets rnd) playerID of
             None \<Rightarrow> r
           | Some bet \<Rightarrow>
               r\<lparr>players :=
                    AList.update playerID
                      (player\<lparr>RoomPlayer.Balance := RoomPlayer.Balance player + Amount bet\<rparr>)
                      (players r),
                  currentRound := Some (rnd\<lparr>Bets := AList.delete playerID (Bets rnd)\<rparr>)\<rparr>))"

definition RemovePlayer :: "GameRoom \<Rightarrow> int \<Rightarrow> string \<Rightarrow> error + GameRoom" where
  "RemovePlayer r now playerID =
     (case map_of (players r) playerID of
        None \<Rightarrow> Inl ErrPlayerNotFound
      | Some player \<Rightarrow>
          let r1 = cancelActiveBet r playerID player;
              r2 = r1\<lparr>players := AList.delete playerID (players r1), lastActivity := now\<rparr>;
              r3 = logf r2 Info ''Player left room'';
              r4 = (if int (length (players r3)) < RoomConfig.MinPlayers (config r3)
                       \<and> gameState r3 = StateBetting
                    then pauseGame r3 now else r3)
          in Inr (broadcastRoomUpdate r4 now))"

definition PlaceBet :: "GameRoom \<Rightarrow> int \<Rightarrow> string \<Rightarrow> real \<Rightarrow> Side \<Rightarrow> error + GameRoom" where
  "PlaceBet r now playerID amount choice =
     (if gameState r \<noteq> StateBetting then Inl ErrInvalidGamePhase
      else case map_of (players r) playerID of
        None \<Rightarrow> Inl ErrPlayerNotFound
      | Some player \<Rightarrow>
          (case currentRound r of
             None \<Rightarrow> Inl ErrNoActiveRound
           | Some rnd \<Rightarrow>
               if map_of (Bets rnd) playerID \<noteq> None then Inl ErrPlayerAlreadyBet
               else if amount < MinBet (config r) \<or> amount > MaxBet (config r)
                 then Inl ErrInvalidBetAmount
               else if RoomPlayer.Balance player < amount then Inl ErrInsufficientBalance
               else
                 let bet = \<lparr>BetData.PlayerID = playerID, Amount = amount, Choice = choice,
                            BetID = generateBetID now\<rparr>;
                     player1 = player\<lparr>RoomPlayer.Balance := RoomPlayer.Balance player - amount,
                                      CurrentBet := Some bet\<rparr>;
                     r1 = r\<lparr>players := AList.update playerID player1 (players r),
                            currentRound :=
                              Some (rnd\<lparr>Bets := AList.update playerID bet (Bets rnd)\<rparr>),
                            lastActivity := now\<rparr>;
                     r2 = logf r1 Info ''Bet placed'';
                     r3 = broadcastMessage r2 (NewMessage MsgBetPlaced (id' r2) playerID (OfBetData bet) now)
                 in Inr (broadcastRoomUpdate r3 now)))"

definition startBettingPhase :: "GameRoom \<Rightarrow> int \<Rightarrow> GameRoom" where
  "startBettingPhase r now =
     (let r1 = r\<lparr>timerEnd := now + BettingDuration (config r)\<rparr>;
          r2 = r1\<lparr>timer := Some True\<rparr>;
          r3 = r2\<lparr>spawned := spawned r2 @ [TaskBroadcastTimer]\<rparr>
      in broadcastMessage r3
           (NewMessage MsgBetPhase (id' r3) []
              (OfTimerData \<lparr>Phase = StateBetting,
                            SecondsLeft = seconds_of (BettingDuration (config r3)),
                            TotalSeconds = seconds_of (BettingDuration (config r3))\<rparr>) now))"

definition StartGame :: "GameRoom \<Rightarrow> int \<Rightarrow> error + GameRoom" where
  "StartGame r now =
     (if int (length (players r)) < RoomConfig.MinPlayers (config r) then Inl ErrNotEnoughPlayers
      else if gameState r \<noteq> StateWaiting then Inl ErrInvalidGamePhase
      else
        let rnd = \<lparr>GameRound.ID = generateRoundID r now, StartTime = now, Bets = [],
                     SeedCommits = [], SeedReveals = [], GameRound.FinalSeed = [],
                     GameRound.CoinResult = [], Results = [], State = StateBetting\<rparr>;
            r1 = r\<lparr>currentRound := Some rnd\<rparr>;
            r2 = r1\<lparr>gameState := StateBetting, totalRounds := totalRounds r1 + 1\<rparr>;
            r3 = startBettingPhase r2 now;
            r4 = logf r3 Info ''Game round started''
        in Inr (broadcastMessage r4
                  (NewMessage MsgGameStart (id' r4) [] (GoString (GameRound.ID rnd)) now)))"

text \<open>
  \<^verbatim>\<open>DefaultRandomGenerator.FlipCoin\<close> hashes the seed with SHA-256 and reads the first
  eight bytes as a big-endian \<^verbatim>\<open>uint64\<close>. The hash is the standard library's: the
  model receives that \<^verbatim>\<open>uint64\<close> as \<open>randomValue\<close>.
\<close>

definition FlipCoin :: "string \<Rightarrow> 64 word \<Rightarrow> error + Side" where
  "FlipCoin seed randomValue =
     (if seed = [] then Inl ErrSeedEmpty
      else if randomValue mod 2 = 0 then Inr Heads
      else Inr Tails)"

text \<open>
  The loop of \<^verbatim>\<open>generateFinalResult\<close> over the bets of the round. \<open>ps\<close> is the roster
  (the loop writes through the pointers it reads from it), \<open>rs\<close> the results of the round.
  A bet whose player is not in the roster makes \<^verbatim>\<open>player\<close> nil, and the first write
  to it panics.
\<close>

fun settleBets ::
  "RoomConfig \<Rightarrow> Side \<Rightarrow> (string \<times> BetData) list \<Rightarrow> (string \<times> RoomPlayer) list \<Rightarrow>
   (string \<times> PlayerResult) list \<Rightarrow> error + ((string \<times> RoomPlayer) list \<times> (string \<times> PlayerResult) list)"
where
  "settleBets cfg coinResult [] ps rs = Inr (ps, rs)"
| "settleBets cfg coinResult ((playerID, bet) # bets) ps rs =
     (case map_of ps playerID of
        None \<Rightarrow> Inl PanicNilDeref
      | Some player \<Rightarrow>
          let won = (Choice bet = coinResult);
              payout = (if won then Amount bet * PayoutRatio cfg else 0);
              player1 =
                (if won
                 then player\<lparr>RoomPlayer.Balance := RoomPlayer.Balance player + payout,
                             TotalWins := TotalWins player + 1,
                             NetProfit := NetProfit player + (payout - Amount bet)\<rparr>
                 else player\<lparr>NetProfit := NetProfit player - Amount bet\<rparr>);
              player2 = player1\<lparr>TotalGames := TotalGames player1 + 1, CurrentBet := None\<rparr>;
              result = \<lparr>PlayerResult.PlayerID = playerID,
                        PlayerResult.PlayerName = RoomPlayer.Name player2,
                        Bet = Some bet, Won = won, Payout = payout,
                        NewBalance = RoomPlayer.Balance player2\<rparr>
          in settleBets cfg coinResult bets
               (AList.update playerID player2 ps) (AList.update playerID result rs))"

text \<open>
  \<^verbatim>\<open>generateFinalResult\<close>. \<open>seed\<close> is the hexadecimal SHA-256 of the 32 random bytes
  and \<open>randomValue\<close> the number \<^verbatim>\<open>FlipCoin\<close> derives from it: both come from the
  standard library and are arguments here. The error of \<^verbatim>\<open>FlipCoin\<close> is dropped, as in
  the source, which leaves the zero value of \<^verbatim>\<open>Side\<close>.
\<close>

definition generateFinalResult :: "GameRoom \<Rightarrow> string \<Rightarrow> 64 word \<Rightarrow> error + GameRoom" where
  "generateFinalResult r seed randomValue =
     (case currentRound r of
        None \<Rightarrow> Inl PanicNilDeref
      | Some rnd \<Rightarrow>
          let coinResult = (case FlipCoin seed randomValue of Inl e \<Rightarrow> [] | Inr s \<Rightarrow> s);
              rnd1 = rnd\<lparr>GameRound.FinalSeed := seed, GameRound.CoinResult := coinResult\<rparr>
          in (case settleBets (config r) coinResult (Bets rnd1) (players r) (Results rnd1) of
                Inl e \<Rightarrow> Inl e
              | Inr res \<Rightarrow>
                  Inr (r\<lparr>players := fst res,
                         currentRound := Some (rnd1\<lparr>Results := snd res\<rparr>)\<rparr>)))"

text \<open>
  \<^verbatim>\<open>startResultPhase\<close>. The callback of its \<^verbatim>\<open>time.AfterFunc\<close> is
  \<open>resultTimerFired\<close> below; arming it adds one to \<open>resultTimers\<close>.
\<close>

definition startResultPhase :: "GameRoom \<Rightarrow> int \<Rightarrow> error + GameRoom" where
  "startResultPhase r now =
     (let r1 = r\<lparr>gameState := StateResult\<rparr>
      in case currentRound r1 of
           None \<Rightarrow> Inl PanicNilDeref
         | Some rnd \<Rightarrow>
             let winners = map snd (filter (\<lambda>(k, result). Won result) (Results rnd));
                 losers = map snd (filter (\<lambda>(k, result). \<not> Won result) (Results rnd));
                 resultData =
                   \<lparr>GameResultData.RoundID = GameRound.ID rnd,
                    GameResultData.CoinResult = GameRound.CoinResult rnd,
                    GameResultData.FinalSeed = GameRound.FinalSeed rnd,
                    Winners = winners, Losers = losers, GameResultData.Timestamp = now\<rparr>;
                 r2 = logf r1 Info ''Game result generated'';
                 r3 = broadcastMessage r2
                        (NewMessage MsgGameResult (id' r2) [] (OfGameResultData resultData) now)
             in Inr (r3\<lparr>resultTimers := resultTimers r3 + 1\<rparr>))"

definition resultTimerFired :: "GameRoom \<Rightarrow> int \<Rightarrow> GameRoom" where
  "resultTimerFired r now =
     (let r1 = r\<lparr>gameState := StateWaiting\<rparr>;
          r2 = r1\<lparr>currentRound := None\<rparr>;
          r3 = broadcastRoomUpdate r2 now
      in if int (length (players r3)) \<ge> RoomConfig.MinPlayers (config r3)
         then r3\<lparr>spawned := spawned r3 @ [TaskNextRound]\<rparr>
         else r3)"

definition endBettingPhase :: "GameRoom \<Rightarrow> int \<Rightarrow> string \<Rightarrow> 64 word \<Rightarrow> error + GameRoom" where
  "endBettingPhase r now seed randomValue =
     (if gameState r \<noteq> StateBetting then Inr r
      else
        let r1 = r\<lparr>gameState := StateRevealing\<rparr>
        in case currentRound r1 of
             None \<Rightarrow> Inl PanicNilDeref
           | Some rnd \<Rightarrow>
               let r2 = logf r1 Info ''Betting phase ended''
               in if length (Bets rnd) = 0
                  then
                    let r3 = r2\<lparr>gameState := StateWaiting\<rparr>;
                        r4 = r3\<lparr>currentRound := None\<rparr>
                    in Inr (broadcastRoomUpdate r4 now)
                  else
                    (case generateFinalResult r2 seed randomValue of
                       Inl e \<Rightarrow> Inl e
                     | Inr r3 \<Rightarrow> startResultPhase r3 now))"

text \<open>
  One tick of the countdown goroutine \<^verbatim>\<open>broadcastTimer\<close>: the room after the tick,
  and whether the goroutine goes on.
\<close>

definition broadcastTimer_tick :: "GameRoom \<Rightarrow> int \<Rightarrow> GameRoom \<times> bool" where
  "broadcastTimer_tick r now =
     (if gameState r \<noteq> StateBetting then (r, False)
      else
        let secondsLeft = seconds_of (timerEnd r - now)
        in if secondsLeft \<le> 0 then (r, False)
           else (broadcastMessage r
                   (NewMessage MsgTimerUpdate (id' r) []
                      (OfTimerData \<lparr>Phase = StateBetting, SecondsLeft = secondsLeft,
                                    TotalSeconds = seconds_of (BettingDuration (config r))\<rparr>) now),
                 True))"

subsection \<open>Scheduling: the steps of a room\<close>

text \<open>
  What can happen to a room: a call of one of its methods, the firing of the betting
  timer (with the seed and the number drawn for the round) or of a result timer, the run
  of a goroutine the room has started, and the relay taking the oldest event from the
  queue.
\<close>

datatype Event =
    EvAddPlayer string string real
  | EvRemovePlayer string
  | EvPlaceBet string real Side
  | EvStartGame
  | EvBettingTimer string "64 word"
  | EvResultTimer
  | EvRunTask Task
  | EvRelay

text \<open>
  A call that returns an error has changed nothing, and the room goes on. \<open>None\<close>: the
  event cannot happen in this state (the timer is not pending, the goroutine was not
  started, the queue is empty), or the process has panicked.
\<close>

definition keep :: "GameRoom \<Rightarrow> error + GameRoom \<Rightarrow> GameRoom option" where
  "keep r res = (case res of Inl e \<Rightarrow> Some r | Inr r1 \<Rightarrow> Some r1)"

definition crash :: "error + GameRoom \<Rightarrow> GameRoom option" where
  "crash res = (case res of Inl e \<Rightarrow> None | Inr r1 \<Rightarrow> Some r1)"

fun runTask :: "GameRoom \<Rightarrow> int \<Rightarrow> Task \<Rightarrow> GameRoom" where
  "runTask r now TaskAutoStart =
     (case StartGame r now of
        Inl e \<Rightarrow> logf r Error ''Failed to auto-start game''
      | Inr r1 \<Rightarrow> r1)"
| "runTask r now TaskNextRound =
     (case StartGame r now of Inl e \<Rightarrow> r | Inr r1 \<Rightarrow> r1)"
| "runTask r now TaskBroadcastTimer =
     (case broadcastTimer_tick r now of
        (r1, again) \<Rightarrow> if again then r1\<lparr>spawned := spawned r1 @ [TaskBroadcastTimer]\<rparr> else r1)"

fun apply_event :: "GameRoom \<Rightarrow> int \<Rightarrow> Event \<Rightarrow> GameRoom option" where
  "apply_event r now (EvAddPlayer playerID playerName balance) =
     keep r (AddPlayer r now playerID playerName balance)"
| "apply_event r now (EvRemovePlayer playerID) = keep r (RemovePlayer r now playerID)"
| "apply_event r now (EvPlaceBet playerID amount choice) =
     keep r (PlaceBet r now playerID amount choice)"
| "apply_event r now EvStartGame = keep r (StartGame r now)"
| "apply_event r now (EvBettingTimer seed randomValue) =
     (if timer r = Some True
      then crash (endBettingPhase (r\<lparr>timer := Some False\<rparr>) now seed randomValue)
      else None)"
| "apply_event r now EvResultTimer =
     (if resultTimers r > 0
      then Some (resultTimerFired (r\<lparr>resultTimers := resultTimers r - 1\<rparr>) now)
      else None)"
| "apply_event r now (EvRunTask t) =
     (if t \<in> set (spawned r)
      then Some (runTask (r\<lparr>spawned := remove1 t (spawned r)\<rparr>) now t)
      else None)"
| "apply_event r now EvRelay =
     (case eventChan r of [] \<Rightarrow> None | msg # rest \<Rightarrow> Some (r\<lparr>eventChan := rest\<rparr>))"

fun run :: "GameRoom \<Rightarrow> (int \<times> Event) list \<Rightarrow> GameRoom option" where
  "run r [] = Some r"
| "run r ((now, ev) # evs) =
     (case apply_event r now ev of None \<Rightarrow> None | Some r1 \<Rightarrow> run r1 evs)"

inductive reachable :: "GameRoom \<Rightarrow> bool" where
  reachable_new: "reachable (NewGameRoom rid rname cfg now)"
| reachable_step: "reachable r \<Longrightarrow> apply_event r now ev = Some r1 \<Longrightarrow> reachable r1"

subsection \<open>The invariant of a room and the outcome of a round\<close>

text \<open>
  What every state of a room satisfies (lemma \<open>reachable_room_inv\<close> below): a round
  exists exactly when the phase is not waiting; the phase between two operations is never
  revealing; the keys of the roster and of the bets are those of Go maps (no key twice),
  and every bet belongs to a player of the roster; the betting timer is pending exactly
  in the betting phase, a result timer exactly in the result phase. Then the names used
  to state what \<^verbatim>\<open>generateFinalResult\<close> computes for one bet.
\<close>

definition bets_ok :: "GameRound option \<Rightarrow> (string \<times> RoomPlayer) list \<Rightarrow> bool" where
  "bets_ok cur ps =
     (case cur of
        None \<Rightarrow> True
      | Some rnd \<Rightarrow> distinct (map fst (Bets rnd)) \<and> fst ` set (Bets rnd) \<subseteq> fst ` set ps)"

definition room_inv :: "GameRoom \<Rightarrow> bool" where
  "room_inv r =
     (((currentRound r = None) = (gameState r = StateWaiting)) \<and> gameState r \<noteq> StateRevealing
      \<and> distinct (map fst (players r)) \<and> bets_ok (currentRound r) (players r)
      \<and> ((timer r = Some True) = (gameState r = StateBetting))
      \<and> resultTimers r = (if gameState r = StateResult then 1 else 0))"

definition settledPlayer :: "RoomConfig \<Rightarrow> Side \<Rightarrow> BetData \<Rightarrow> RoomPlayer \<Rightarrow> RoomPlayer" where
  "settledPlayer cfg coinResult bet player =
     (if Choice bet = coinResult
      then player\<lparr>RoomPlayer.Balance := RoomPlayer.Balance player + Amount bet * PayoutRatio cfg,
                  TotalWins := TotalWins player + 1,
                  NetProfit := NetProfit player + (Amount bet * PayoutRatio cfg - Amount bet),
                  TotalGames := TotalGames player + 1, CurrentBet := None\<rparr>
      else player\<lparr>NetProfit := NetProfit player - Amount bet,
                  TotalGames := TotalGames player + 1, CurrentBet := None\<rparr>)"

definition settledResult :: "RoomConfig \<Rightarrow> Side \<Rightarrow> string \<Rightarrow> BetData \<Rightarrow> RoomPlayer \<Rightarrow> PlayerResult" where
  "settledResult cfg coinResult playerID bet player =
     \<lparr>PlayerResult.PlayerID = playerID, PlayerResult.PlayerName = RoomPlayer.Name player,
      Bet = Some bet, Won = (Choice bet = coinResult),
      Payout = (if Choice bet = coinResult then Amount bet * PayoutRatio cfg else 0),
      NewBalance = (if Choice bet = coinResult
                    then RoomPlayer.Balance player + Amount bet * PayoutRatio cfg
                    else RoomPlayer.Balance player)\<rparr>"

definition coinOf :: "string \<Rightarrow> 64 word \<Rightarrow> Side" where
  "coinOf seed randomValue = (case FlipCoin seed randomValue of Inl e \<Rightarrow> [] | Inr s \<Rightarrow> s)"

subsection \<open>Runs used as examples\<close>

text \<open>
  \<open>after r evs\<close> is the room after the events \<open>evs\<close> (the room itself where they
  cannot happen). The example rooms follow the scenarios of the specification: a room for
  two to four players; two players join with a balance of 100 and the auto-start runs;
  then either both place a bet, or a third player with a balance of 5 joins, or the first
  player leaves.
\<close>

definition after :: "GameRoom \<Rightarrow> (int \<times> Event) list \<Rightarrow> GameRoom" where
  "after r evs = (case run r evs of None \<Rightarrow> r | Some r1 \<Rightarrow> r1)"

definition room_new :: GameRoom where
  "room_new =
     NewGameRoom ''room'' ''Room''
       (Some (DefaultRoomConfig\<lparr>RoomConfig.MinPlayers := 2, RoomConfig.MaxPlayers := 4\<rparr>)) 0"

definition room_betting :: GameRoom where
  "room_betting =
     after room_new
       [(1, EvAddPlayer ''P1'' ''Ann'' 100), (2, EvAddPlayer ''P2'' ''Bob'' 100),
        (3, EvRunTask TaskAutoStart)]"

definition room_bets :: GameRoom where
  "room_bets =
     after room_betting [(4, EvPlaceBet ''P1'' 10 Heads), (5, EvPlaceBet ''P2'' 20 Tails)]"


definition room_paused :: GameRoom where
  "room_paused = after room_betting [(4, EvRemovePlayer ''P1'')]"

text \<open>
  More example rooms: the new room after its first player has joined, and the betting
  room after a third and a fourth player have joined (the room is then full).
  \<open>newPlayer\<close> is the roster entry \<^verbatim>\<open>AddPlayer\<close> creates.
\<close>

definition room_one :: GameRoom where
  "room_one = after room_new [(1, EvAddPlayer ''P1'' ''Ann'' 100)]"

definition room_full :: GameRoom where
  "room_full =
     after room_betting [(4, EvAddPlayer ''P3'' ''Cy'' 5), (5, EvAddPlayer ''P4'' ''Dan'' 100)]"

definition newPlayer :: "string \<Rightarrow> string \<Rightarrow> real \<Rightarrow> int \<Rightarrow> RoomPlayer" where
  "newPlayer playerID playerName balance now =
     \<lparr>RoomPlayer.ID = playerID, RoomPlayer.Name = playerName,
      RoomPlayer.Balance = balance, RoomPlayer.IsReady = False,
      RoomPlayer.IsOnline = True, LastSeen = now, CurrentBet = None,
      TotalGames = 0, TotalWins = 0, NetProfit = 0\<rparr>"

text \<open>
  The result event \<^verbatim>\<open>startResultPhase\<close> builds from a round, and the round as
  \<^verbatim>\<open>generateFinalResult\<close> leaves it, given what its loop returns.
\<close>

definition resultMessage :: "GameRoom \<Rightarrow> GameRound \<Rightarrow> int \<Rightarrow> Message" where
  "resultMessage r rnd now =
     NewMessage MsgGameResult (id' r) []
       (OfGameResultData
          \<lparr>GameResultData.RoundID = GameRound.ID rnd,
           GameResultData.CoinResult = GameRound.CoinResult rnd,
           GameResultData.FinalSeed = GameRound.FinalSeed rnd,
           Winners = map snd (filter (\<lambda>(k, result). Won result) (Results rnd)),
           Losers = map snd (filter (\<lambda>(k, result). \<not> Won result) (Results rnd)),
           GameResultData.Timestamp = now\<rparr>) now"

definition settledRound :: "GameRoom \<Rightarrow> GameRound \<Rightarrow> string \<Rightarrow> 64 word \<Rightarrow>
    (string \<times> RoomPlayer) list \<times> (string \<times> PlayerResult) list \<Rightarrow> GameRound" where
  "settledRound r rnd seed rv res =
     rnd\<lparr>GameRound.FinalSeed := seed, GameRound.CoinResult := coinOf seed rv,
         Results := snd res\<rparr>"

text \<open>The event \<^verbatim>\<open>broadcastRoomUpdate\<close> builds.\<close>

definition roomUpdateMessage :: "GameRoom \<Rightarrow> int \<Rightarrow> Message" where
  "roomUpdateMessage r now =
     NewMessage MsgRoomUpdate (id' r) []
       (OfRoomUpdateData
          \<lparr>RoomUpdateData.RoomID = id' r,
           Players = map (\<lambda>(k, player). playerInfo player) (players r),
           GameState = gameState r,
           Timer = seconds_of (timerEnd r - now),
           RoomUpdateData.MinPlayers = RoomConfig.MinPlayers (config r),
           RoomUpdateData.MaxPlayers = RoomConfig.MaxPlayers (config r)\<rparr>) now"

section \<open>The envelope on the wire\<close>

text \<open>
  \<^verbatim>\<open>ToJSON\<close> and \<^verbatim>\<open>FromJSON\<close> are one call each of \<^verbatim>\<open>encoding/json\<close>. A JSON
  text is modelled by the value it denotes, with the members of an object in the order
  they are written. What the model takes from the standard library:

  \<^item> \<^verbatim>\<open>json.Marshal\<close> writes a struct as an object with one member per field, in the
    order of the fields and under the name of the field's tag; a field tagged
    \<^verbatim>\<open>omitempty\<close> is left out when it is nil or empty; a nil slice is written
    \<^verbatim>\<open>null\<close>; the keys of a map are written in sorted order;
  \<^item> \<^verbatim>\<open>json.Unmarshal\<close> into an \<^verbatim>\<open>interface{}\<close> stores nil, a bool, a float64, a
    string, a \<^verbatim>\<open>[]interface{}\<close> or a \<^verbatim>\<open>map[string]interface{}\<close>, whatever type
    the value was written from; into a struct it reads, for each field, the last member
    with the field's name (the model matches names exactly; Go also accepts a name that
    differs in letter case), leaves the field at its zero value when there is no such
    member or the member is \<^verbatim>\<open>null\<close>, and fails when the member has another type;
  \<^item> a \<^verbatim>\<open>time.Time\<close> is written as a string in the RFC 3339 layout and read back
    from it. The layout is the \<^verbatim>\<open>time\<close> package's: the model receives it as a pair
    of functions, \<open>formatTime\<close> (which fails for a year outside 0 to 9999) and
    \<open>parseTime\<close>.
\<close>

datatype json =
    JNull
  | JBool bool
  | JNumber real
  | JString string
  | JArray "json list"
  | JObject "(string \<times> json) list"

record TimeLayout =
  formatTime :: "int \<Rightarrow> string option"
  parseTime :: "string \<Rightarrow> int option"

definition marshal_RoomJoinData :: "RoomJoinData \<Rightarrow> json" where
  "marshal_RoomJoinData d =
     JObject [(''player_name'', JString (RoomJoinData.PlayerName d)),
              (''balance'', JNumber (RoomJoinData.Balance d))]"

definition marshal_PlayerInfo :: "PlayerInfo \<Rightarrow> json" where
  "marshal_PlayerInfo d =
     JObject [(''id'', JString (PlayerInfo.ID d)), (''name'', JString (PlayerInfo.Name d)),
              (''balance'', JNumber (PlayerInfo.Balance d)),
              (''is_ready'', JBool (PlayerInfo.IsReady d)), (''has_bet'', JBool (HasBet d)),
              (''is_online'', JBool (PlayerInfo.IsOnline d))]"

definition marshal_RoomUpdateData :: "RoomUpdateData \<Rightarrow> json" where
  "marshal_RoomUpdateData d =
     JObject [(''room_id'', JString (RoomUpdateData.RoomID d)),
              (''players'', JArray (map marshal_PlayerInfo (Players d))),
              (''game_state'', JString (GameState_string (GameState d))),
              (''timer_seconds'', JNumber (real_of_int (Timer d))),
              (''min_players'', JNumber (real_of_int (RoomUpdateData.MinPlayers d))),
              (''max_players'', JNumber (real_of_int (RoomUpdateData.MaxPlayers d)))]"

definition marshal_BetData :: "BetData \<Rightarrow> json" where
  "marshal_BetData d =
     JObject [(''player_id'', JString (BetData.PlayerID d)), (''amount'', JNumber (Amount d)),
              (''choice'', JString (Choice d)), (''bet_id'', JString (BetID d))]"

definition marshal_TimerData :: "TimerData \<Rightarrow> json" where
  "marshal_TimerData d =
     JObject [(''phase'', JString (GameState_string (Phase d))),
              (''seconds_left'', JNumber (real_of_int (SecondsLeft d))),
              (''total_seconds'', JNumber (real_of_int (TotalSeconds d)))]"

definition marshal_SeedCommitData :: "SeedCommitData \<Rightarrow> json" where
  "marshal_SeedCommitData d =
     JObject [(''player_id'', JString (SeedCommitData.PlayerID d)),
              (''seed_hash'', JString (SeedHash d)),
              (''round_id'', JString (SeedCommitData.RoundID d))]"

definition marshal_SeedRevealData :: "SeedRevealData \<Rightarrow> json" where
  "marshal_SeedRevealData d =
     JObject [(''player_id'', JString (SeedRevealData.PlayerID d)), (''seed'', JString (Seed d)),
              (''round_id'', JString (SeedRevealData.RoundID d))]"

text \<open>The field \<^verbatim>\<open>Bet\<close> is a pointer tagged \<^verbatim>\<open>omitempty\<close>.\<close>

definition marshal_PlayerResult :: "PlayerResult \<Rightarrow> json" where
  "marshal_PlayerResult d =
     JObject ([(''player_id'', JString (PlayerResult.PlayerID d)),
               (''player_name'', JString (PlayerResult.PlayerName d))]
              @ (case Bet d of None \<Rightarrow> [] | Some b \<Rightarrow> [(''bet'', marshal_BetData b)])
              @ [(''won'', JBool (Won d)), (''payout'', JNumber (Payout d)),
                 (''new_balance'', JNumber (NewBalance d))])"

text \<open>
  \<^verbatim>\<open>Winners\<close> and \<^verbatim>\<open>Losers\<close> are built by \<^verbatim>\<open>append\<close> from a nil slice, so an
  empty one is nil and is written \<^verbatim>\<open>null\<close>.
\<close>

definition marshal_results :: "PlayerResult list \<Rightarrow> json" where
  "marshal_results rs = (if rs = [] then JNull else JArray (map marshal_PlayerResult rs))"

definition marshal_GameResultData :: "TimeLayout \<Rightarrow> GameResultData \<Rightarrow> json option" where
  "marshal_GameResultData lay d =
     (case formatTime lay (GameResultData.Timestamp d) of
        None \<Rightarrow> None
      | Some ts \<Rightarrow>
          Some (JObject [(''round_id'', JString (GameResultData.RoundID d)),
                         (''coin_result'', JString (GameResultData.CoinResult d)),
                         (''final_seed'', JString (GameResultData.FinalSeed d)),
                         (''winners'', marshal_results (Winners d)),
                         (''losers'', marshal_results (Losers d)),
                         (''timestamp'', JString ts)]))"

text \<open>The field \<^verbatim>\<open>Details\<close> is tagged \<^verbatim>\<open>omitempty\<close>.\<close>

definition marshal_ErrorData :: "ErrorData \<Rightarrow> json" where
  "marshal_ErrorData d =
     JObject ([(''code'', JString (Code d)), (''message'', JString (ErrorData.Message d))]
              @ (if Details d = [] then [] else [(''details'', JString (Details d))]))"

fun those_members :: "(string \<times> json option) list \<Rightarrow> (string \<times> json) list option" where
  "those_members [] = Some []"
| "those_members ((k, None) # ms) = None"
| "those_members ((k, Some j) # ms) = map_option ((#) (k, j)) (those_members ms)"

text \<open>\<^verbatim>\<open>json.Marshal\<close> of the value held by an \<^verbatim>\<open>interface{}\<close>.\<close>

primrec marshal :: "TimeLayout \<Rightarrow> iface \<Rightarrow> json option" where
  "marshal lay GoNil = Some JNull"
| "marshal lay (GoBool b) = Some (JBool b)"
| "marshal lay (GoFloat64 x) = Some (JNumber x)"
| "marshal lay (GoString s) = Some (JString s)"
| "marshal lay (GoSlice xs) = map_option JArray (those (map (marshal lay) xs))"
| "marshal lay (GoMap kvs) =
     map_option (\<lambda>ms. JObject (sort_key fst ms))
       (those_members (map (map_prod (\<lambda>k. k) (marshal lay)) kvs))"
| "marshal lay (OfRoomJoinData d) = Some (marshal_RoomJoinData d)"
| "marshal lay (OfRoomUpdateData d) = Some (marshal_RoomUpdateData d)"
| "marshal lay (OfBetData d) = Some (marshal_BetData d)"
| "marshal lay (OfTimerData d) = Some (marshal_TimerData d)"
| "marshal lay (OfSeedCommitData d) = Some (marshal_SeedCommitData d)"
| "marshal lay (OfSeedRevealData d) = Some (marshal_SeedRevealData d)"
| "marshal lay (OfGameResultData d) = marshal_GameResultData lay d"
| "marshal lay (OfErrorData d) = Some (marshal_ErrorData d)"








definition ToJSON :: "TimeLayout \<Rightarrow> Message \<Rightarrow> error + json" where
  "ToJSON lay m =
     (case formatTime lay (Message.Timestamp m) of
        None \<Rightarrow> Inl ErrMarshal
      | Some ts \<Rightarrow>
          (case marshal lay (Message.Data m) of
             None \<Rightarrow> Inl ErrMarshal
           | Some d \<Rightarrow>
               Inr (JObject [(''type'', JString (Message.Type m)),
                             (''room_id'', JString (Message.RoomID m)),
                             (''player_id'', JString (Message.PlayerID m)),
                             (''timestamp'', JString ts), (''data'', d)])))"


text \<open>
  For the examples: a layout that writes an instant as a sign and as many strokes as it
  has nanoseconds, and two envelopes. Any layout that reads back what it writes serves.
\<close>

definition strokes :: TimeLayout where
  "strokes =
     \<lparr>formatTime = (\<lambda>t. Some (if t < 0 then CHR ''-'' # replicate (nat (- t)) CHR ''I''
                               else replicate (nat t) CHR ''I'')),
      parseTime = (\<lambda>s. case s of
                          [] \<Rightarrow> Some 0
                        | c # cs \<Rightarrow> if c = CHR ''-'' then Some (- int (length cs))
                                    else Some (int (length s)))\<rparr>"





section \<open>The relay of the server\<close>


type_synonym RoomRef = nat

record Client =
  connOpen :: bool
  room :: "RoomRef option"
  playerID :: string
  name' :: string
  send :: "json list"
  sendClosed :: bool











section \<open>The network client: losing the connection and reconnecting\<close>

text \<open>
  The fields of \<^verbatim>\<open>NetworkClient\<close> that the reconnect logic reads or writes. \<open>conn\<close>
  tells whether the connection pointer is non-nil; \<open>errorChan\<close> is the content of the
  buffered error channel, oldest first. The last four fields are the runtime around the
  struct: the lines written to the logger, what the client has done so far (slept,
  dialled, started its pumps, written a message, closed the connection), and how many
  dials and writes it has made.

  The network is an argument: whether the server URL parses, whether the \<open>n\<close>-th dial
  succeeds, whether the \<open>n\<close>-th write succeeds. Each \<^verbatim>\<open>go c.attemptReconnect()\<close> is the
  last statement of its caller, so the chain of attempts is a plain recursion.
\<close>

datatype Action = ActSleep int | ActDial bool | ActStartPumps | ActSend json | ActClose

record NetworkClient =
  conn :: bool
  serverURL :: string
  playerID :: string
  playerName :: string
  currentRoom :: string
  errorChan :: "error list"
  connected :: bool
  reconnectDelay :: int
  maxReconnects :: int
  reconnectCount :: int
  clientLogs :: "(LogLevel \<times> string) list"
  actions :: "Action list"
  dials :: nat
  writes :: nat

record Net =
  urlOk :: bool
  dialOk :: "nat \<Rightarrow> bool"
  writeOk :: "nat \<Rightarrow> bool"

definition errorChanCap :: nat where
  "errorChanCap = 10"

definition clog :: "NetworkClient \<Rightarrow> LogLevel \<Rightarrow> string \<Rightarrow> NetworkClient" where
  "clog c lvl msg = c\<lparr>clientLogs := clientLogs c @ [(lvl, msg)]\<rparr>"

definition act :: "NetworkClient \<Rightarrow> Action \<Rightarrow> NetworkClient" where
  "act c a = c\<lparr>actions := actions c @ [a]\<rparr>"

text \<open>A send on the error channel in a \<^verbatim>\<open>select\<close> with an empty \<^verbatim>\<open>default\<close> branch.\<close>

definition pushError :: "NetworkClient \<Rightarrow> error \<Rightarrow> NetworkClient" where
  "pushError c e =
     (if length (errorChan c) < errorChanCap then c\<lparr>errorChan := errorChan c @ [e]\<rparr> else c)"

definition Connect :: "Net \<Rightarrow> NetworkClient \<Rightarrow> NetworkClient \<times> error option" where
  "Connect net c =
     (if connected c then (c, None)
      else if \<not> urlOk net then (c, Some ErrInvalidURL)
      else
        let c1 = clog c Info ''Connecting to server'';
            ok = dialOk net (dials c1);
            c2 = act (c1\<lparr>dials := dials c1 + 1\<rparr>) (ActDial ok)
        in if \<not> ok then (c2, Some ErrDialFailed)
           else
             let c3 = c2\<lparr>conn := True, connected := True, reconnectCount := 0\<rparr>;
                 c4 = act c3 ActStartPumps
             in (clog c4 Info ''Connected to server successfully'', None))"

definition sendMessage :: "TimeLayout \<Rightarrow> Net \<Rightarrow> NetworkClient \<Rightarrow> Message \<Rightarrow> NetworkClient \<times> error option" where
  "sendMessage lay net c msg =
     (if \<not> connected c \<or> \<not> conn c then (c, Some ErrNotConnected)
      else case ToJSON lay msg of
        Inl e \<Rightarrow> (c, Some e)
      | Inr data \<Rightarrow>
          let ok = writeOk net (writes c);
              c1 = c\<lparr>writes := writes c + 1\<rparr>
          in if ok then (act c1 (ActSend data), None) else (c1, Some ErrWriteFailed))"

definition JoinRoom :: "TimeLayout \<Rightarrow> Net \<Rightarrow> int \<Rightarrow> NetworkClient \<Rightarrow> string \<Rightarrow> real \<Rightarrow> NetworkClient \<times> error option" where
  "JoinRoom lay net now c roomID balance =
     (if \<not> connected c then (c, Some ErrNotConnected)
      else
        let joinData = \<lparr>RoomJoinData.PlayerName = playerName c, RoomJoinData.Balance = balance\<rparr>;
            msg = NewMessage MsgJoinRoom roomID (NetworkClient.playerID c) (OfRoomJoinData joinData) now;
            res = sendMessage lay net c msg
        in case snd res of
             Some e \<Rightarrow> (fst res, Some e)
           | None \<Rightarrow> (clog ((fst res)\<lparr>currentRoom := roomID\<rparr>) Info ''Joining room'', None))"

text \<open>
  A failed \<^verbatim>\<open>Connect\<close> leaves the counter and the budget as they are; the recursion of
  \<^verbatim>\<open>attemptReconnect\<close> ends because each attempt adds one to the counter.
\<close>

lemma Connect_failed:
  "snd (Connect net c) \<noteq> None \<Longrightarrow>
     reconnectCount (fst (Connect net c)) = reconnectCount c
   \<and> maxReconnects (fst (Connect net c)) = maxReconnects c"
  by (auto simp: Connect_def Let_def clog_def act_def split: if_splits)

function attemptReconnect :: "TimeLayout \<Rightarrow> Net \<Rightarrow> int \<Rightarrow> NetworkClient \<Rightarrow> NetworkClient" where
  "attemptReconnect lay net now c =
     (let c1 = c\<lparr>reconnectCount := reconnectCount c + 1\<rparr>;
          c2 = clog c1 Info ''Attempting to reconnect'';
          c3 = act c2 (ActSleep (reconnectDelay c2));
          res = Connect net c3
      in if snd res \<noteq> None
         then
           let c4 = clog (fst res) Error ''Reconnection failed''
           in if reconnectCount c4 < maxReconnects c4
              then attemptReconnect lay net now c4
              else pushError c4 ErrMaxReconnects
         else
           let c4 = fst res
           in if currentRoom c4 \<noteq> []
              then
                let joined = JoinRoom lay net now c4 (currentRoom c4) 1000
                in (case snd joined of
                      Some e \<Rightarrow> clog (fst joined) Error ''Failed to rejoin room after reconnect''
                    | None \<Rightarrow> fst joined)
              else c4)"
  by pat_completeness auto
termination
proof (relation "measure (\<lambda>(lay, net, now, c). nat (maxReconnects c - reconnectCount c))")
  show "wf (measure (\<lambda>(lay, net, now, c). nat (maxReconnects c - reconnectCount c)))"
    by simp
next
  fix lay :: TimeLayout and net :: Net and now :: int and c c1 c2 c3 :: NetworkClient
    and res :: "NetworkClient \<times> error option" and c4 :: NetworkClient
  assume a: "c1 = c\<lparr>reconnectCount := reconnectCount c + 1\<rparr>"
    "c2 = clog c1 Info ''Attempting to reconnect''"
    "c3 = act c2 (ActSleep (reconnectDelay c2))" "res = Connect net c3"
    "snd res \<noteq> None" "c4 = clog (fst res) Error ''Reconnection failed''"
    "reconnectCount c4 < maxReconnects c4"
  from Connect_failed [of net c3] a(4,5) have
    "reconnectCount (fst res) = reconnectCount c3" "maxReconnects (fst res) = maxReconnects c3"
    by simp_all
  with a show "((lay, net, now, c4), lay, net, now, c)
      \<in> measure (\<lambda>(lay, net, now, c). nat (maxReconnects c - reconnectCount c))"
    by (simp add: clog_def act_def)
qed

declare attemptReconnect.simps [simp del]

definition handleDisconnect :: "TimeLayout \<Rightarrow> Net \<Rightarrow> int \<Rightarrow> NetworkClient \<Rightarrow> NetworkClient" where
  "handleDisconnect lay net now c =
     (let c1 = c\<lparr>connected := False\<rparr>;
          c2 = (if conn c1 then (act c1 ActClose)\<lparr>conn := False\<rparr> else c1);
          c3 = clog c2 Warn ''Connection lost'';
          c4 = pushError c3 ErrConnectionLost
      in if maxReconnects c4 > 0 \<and> reconnectCount c4 < maxReconnects c4
         then attemptReconnect lay net now c4
         else c4)"

text \<open>
  Reading the list of actions: how many times the client has slept before an attempt,
  and whether every dial comes right after a sleep (\<open>p\<close> tells whether the action before
  the list was a sleep).
\<close>

fun sleeps :: "Action list \<Rightarrow> nat" where
  "sleeps [] = 0"
| "sleeps (ActSleep d # as) = Suc (sleeps as)"
| "sleeps (a # as) = sleeps as"

fun delayed :: "bool \<Rightarrow> Action list \<Rightarrow> bool" where
  "delayed p [] = True"
| "delayed p (ActSleep d # as) = delayed True as"
| "delayed p (ActDial b # as) = (p \<and> delayed False as)"
| "delayed p (a # as) = delayed False as"

text \<open>What a failed attempt does: it sleeps, and it dials if the URL parses.\<close>

definition failedAttempt :: "Net \<Rightarrow> int \<Rightarrow> Action list" where
  "failedAttempt net d = (if urlOk net then [ActSleep d, ActDial False] else [ActSleep d])"

text \<open>
  For the examples: a network on which every dial fails, a connected client in a room
  with a budget of three attempts, and the same client with nine unread errors in its
  error channel.
\<close>

definition net_down :: Net where
  "net_down = \<lparr>urlOk = True, dialOk = (\<lambda>n. False), writeOk = (\<lambda>n. True)\<rparr>"

definition client0 :: NetworkClient where
  "client0 =
     \<lparr>conn = True, serverURL = ''ws://localhost:8080/ws'', playerID = ''P1'',
      playerName = ''Ann'', currentRoom = ''room'', errorChan = [], connected = True,
      reconnectDelay = 5 * Second, maxReconnects = 3, reconnectCount = 0, clientLogs = [],
      actions = [], dials = 1, writes = 1\<rparr>"

definition client_unread :: NetworkClient where
  "client_unread = client0\<lparr>errorChan := replicate 9 ErrConnectionLost\<rparr>"

section \<open>Properties of the room\<close>

lemma logf_fields [simp]:
  "id' (logf r l m) = id' r" "name (logf r l m) = name r" "players (logf r l m) = players r"
  "gameState (logf r l m) = gameState r" "currentRound (logf r l m) = currentRound r"
  "config (logf r l m) = config r" "timer (logf r l m) = timer r"
  "timerEnd (logf r l m) = timerEnd r" "eventChan (logf r l m) = eventChan r"
  "totalRounds (logf r l m) = totalRounds r" "createdAt (logf r l m) = createdAt r"
  "lastActivity (logf r l m) = lastActivity r" "resultTimers (logf r l m) = resultTimers r"
  "spawned (logf r l m) = spawned r" "logs (logf r l m) = logs r @ [(l, m)]"
  by (simp_all add: logf_def)

lemma broadcastMessage_fields [simp]:
  "id' (broadcastMessage r m) = id' r" "name (broadcastMessage r m) = name r"
  "players (broadcastMessage r m) = players r"
  "gameState (broadcastMessage r m) = gameState r"
  "currentRound (broadcastMessage r m) = currentRound r"
  "config (broadcastMessage r m) = config r" "timer (broadcastMessage r m) = timer r"
  "timerEnd (broadcastMessage r m) = timerEnd r"
  "totalRounds (broadcastMessage r m) = totalRounds r"
  "createdAt (broadcastMessage r m) = createdAt r"
  "lastActivity (broadcastMessage r m) = lastActivity r"
  "resultTimers (broadcastMessage r m) = resultTimers r"
  "spawned (broadcastMessage r m) = spawned r"
  by (simp_all add: broadcastMessage_def)

lemma broadcastRoomUpdate_fields [simp]:
  "id' (broadcastRoomUpdate r n) = id' r" "name (broadcastRoomUpdate r n) = name r"
  "players (broadcastRoomUpdate r n) = players r"
  "gameState (broadcastRoomUpdate r n) = gameState r"
  "currentRound (broadcastRoomUpdate r n) = currentRound r"
  "config (broadcastRoomUpdate r n) = config r" "timer (broadcastRoomUpdate r n) = timer r"
  "timerEnd (broadcastRoomUpdate r n) = timerEnd r"
  "totalRounds (broadcastRoomUpdate r n) = totalRounds r"
  "createdAt (broadcastRoomUpdate r n) = createdAt r"
  "lastActivity (broadcastRoomUpdate r n) = lastActivity r"
  "resultTimers (broadcastRoomUpdate r n) = resultTimers r"
  "spawned (broadcastRoomUpdate r n) = spawned r"
  by (simp_all add: broadcastRoomUpdate_def Let_def)

lemma checkAndStartGame_fields [simp]:
  "players (checkAndStartGame r) = players r"
  "gameState (checkAndStartGame r) = gameState r"
  "currentRound (checkAndStartGame r) = currentRound r"
  "config (checkAndStartGame r) = config r" "timer (checkAndStartGame r) = timer r"
  "eventChan (checkAndStartGame r) = eventChan r"
  "resultTimers (checkAndStartGame r) = resultTimers r"
  by (simp_all add: checkAndStartGame_def)

lemma pauseGame_fields [simp]:
  "players (pauseGame r n) = players r"
  "gameState (pauseGame r n) = StatePaused"
  "currentRound (pauseGame r n) = currentRound r"
  "config (pauseGame r n) = config r"
  "timer (pauseGame r n) = (case timer r of None \<Rightarrow> None | Some t \<Rightarrow> Some False)"
  "resultTimers (pauseGame r n) = resultTimers r"
  "spawned (pauseGame r n) = spawned r"
  by (simp_all add: pauseGame_def Let_def)

lemma room_inv_NewGameRoom: "room_inv (NewGameRoom rid rname cfg now)"
  by (simp add: room_inv_def bets_ok_def NewGameRoom_def)

lemma keys_update: "fst ` set (AList.update k v al) = insert k (fst ` set al)"
  by (simp add: dom_update)

lemma keys_delete: "fst ` set (AList.delete k al) = fst ` set al - {k}"
  by (induction al) auto

lemma AddPlayer_Inr:
  assumes "AddPlayer r now pid pname bal = Inr r1"
  shows "gameState r1 = gameState r" "currentRound r1 = currentRound r"
    "timer r1 = timer r" "resultTimers r1 = resultTimers r" "config r1 = config r"
    "players r1 = AList.update pid
       \<lparr>RoomPlayer.ID = pid, RoomPlayer.Name = pname, RoomPlayer.Balance = bal,
        RoomPlayer.IsReady = False, RoomPlayer.IsOnline = True, LastSeen = now,
        CurrentBet = None, TotalGames = 0, TotalWins = 0, NetProfit = 0\<rparr> (players r)"
  using assms by (auto simp: AddPlayer_def Let_def split: if_splits)

lemma room_inv_AddPlayer:
  assumes "room_inv r" "AddPlayer r now pid pname bal = Inr r1"
  shows "room_inv r1"
  using assms(1) AddPlayer_Inr [OF assms(2)]
  by (auto simp: room_inv_def bets_ok_def distinct_update keys_update split: option.splits)

lemma cancelActiveBet_fields [simp]:
  "gameState (cancelActiveBet r pid p) = gameState r"
  "config (cancelActiveBet r pid p) = config r"
  "timer (cancelActiveBet r pid p) = timer r"
  "resultTimers (cancelActiveBet r pid p) = resultTimers r"
  "spawned (cancelActiveBet r pid p) = spawned r"
  by (simp_all add: cancelActiveBet_def split: option.splits)

lemma cancelActiveBet_round_None:
  "(currentRound (cancelActiveBet r pid p) = None) = (currentRound r = None)"
  by (simp add: cancelActiveBet_def split: option.splits)

lemma cancelActiveBet_inv:
  assumes "distinct (map fst (players r))" "bets_ok (currentRound r) (players r)"
  shows "distinct (map fst (players (cancelActiveBet r pid p)))"
    and "bets_ok (currentRound (cancelActiveBet r pid p))
           (AList.delete pid (players (cancelActiveBet r pid p)))"
proof -
  show "distinct (map fst (players (cancelActiveBet r pid p)))"
    using assms(1) by (simp add: cancelActiveBet_def distinct_update split: option.splits)
  show "bets_ok (currentRound (cancelActiveBet r pid p))
           (AList.delete pid (players (cancelActiveBet r pid p)))"
  proof (cases "currentRound r")
    case None
    then show ?thesis by (simp add: bets_ok_def cancelActiveBet_def)
  next
    case (Some rnd)
    show ?thesis
    proof (cases "map_of (Bets rnd) pid")
      case None
      then have "pid \<notin> fst ` set (Bets rnd)" by (simp add: map_of_eq_None_iff)
      with assms(2) Some None show ?thesis
        by (auto simp: bets_ok_def cancelActiveBet_def keys_delete)
    next
      case (Some bet)
      with assms(2) \<open>currentRound r = Some rnd\<close> show ?thesis
        by (auto simp: bets_ok_def cancelActiveBet_def keys_delete keys_update distinct_delete)
    qed
  qed
qed

lemma RemovePlayer_Inr:
  assumes "RemovePlayer r now pid = Inr r1"
  shows "\<exists>p. map_of (players r) pid = Some p
     \<and> players r1 = AList.delete pid (players (cancelActiveBet r pid p))
     \<and> currentRound r1 = currentRound (cancelActiveBet r pid p)
     \<and> gameState r1 =
         (if int (length (players r1)) < RoomConfig.MinPlayers (config r) \<and> gameState r = StateBetting
          then StatePaused else gameState r)
     \<and> timer r1 =
         (if int (length (players r1)) < RoomConfig.MinPlayers (config r) \<and> gameState r = StateBetting
          then (case timer r of None \<Rightarrow> None | Some t \<Rightarrow> Some False) else timer r)
     \<and> resultTimers r1 = resultTimers r \<and> config r1 = config r \<and> spawned r1 = spawned r"
  using assms by (auto simp: RemovePlayer_def Let_def split: option.splits if_splits)

lemma room_inv_RemovePlayer:
  assumes "room_inv r" "RemovePlayer r now pid = Inr r1"
  shows "room_inv r1"
proof -
  from RemovePlayer_Inr [OF assms(2)] obtain p where
    p: "players r1 = AList.delete pid (players (cancelActiveBet r pid p))"
       "currentRound r1 = currentRound (cancelActiveBet r pid p)"
       "gameState r1 =
         (if int (length (players r1)) < RoomConfig.MinPlayers (config r) \<and> gameState r = StateBetting
          then StatePaused else gameState r)"
       "timer r1 =
         (if int (length (players r1)) < RoomConfig.MinPlayers (config r) \<and> gameState r = StateBetting
          then (case timer r of None \<Rightarrow> None | Some t \<Rightarrow> Some False) else timer r)"
       "resultTimers r1 = resultTimers r"
    by blast
  from assms(1) have d: "distinct (map fst (players r))"
    and b: "bets_ok (currentRound r) (players r)"
    by (simp_all add: room_inv_def)
  have "bets_ok (currentRound r1) (players r1)"
    using cancelActiveBet_inv(2) [OF d b, of pid p] p(1,2) by simp
  moreover have "distinct (map fst (players r1))"
    using cancelActiveBet_inv(1) [OF d b, of pid p] p(1) by (simp add: distinct_delete)
  moreover have "(currentRound r1 = None) = (gameState r1 = StateWaiting)" "gameState r1 \<noteq> StateRevealing"
    using assms(1) p(2,3) by (auto simp: room_inv_def cancelActiveBet_round_None)
  moreover have "(timer r1 = Some True) = (gameState r1 = StateBetting)"
    "resultTimers r1 = (if gameState r1 = StateResult then 1 else 0)"
    using assms(1) p(3,4,5) by (auto simp: room_inv_def split: option.splits)
  ultimately show ?thesis by (simp add: room_inv_def)
qed

lemma PlaceBet_Inr:
  assumes "PlaceBet r now pid amount choice = Inr r1"
  shows "\<exists>player rnd. gameState r = StateBetting \<and> map_of (players r) pid = Some player
     \<and> currentRound r = Some rnd \<and> map_of (Bets rnd) pid = None
     \<and> MinBet (config r) \<le> amount \<and> amount \<le> MaxBet (config r)
     \<and> amount \<le> RoomPlayer.Balance player
     \<and> gameState r1 = StateBetting \<and> timer r1 = timer r \<and> resultTimers r1 = resultTimers r
     \<and> players r1 = AList.update pid
           (player\<lparr>RoomPlayer.Balance := RoomPlayer.Balance player - amount,
                    CurrentBet := Some \<lparr>BetData.PlayerID = pid, Amount = amount, Choice = choice,
                                         BetID = generateBetID now\<rparr>\<rparr>) (players r)
     \<and> currentRound r1 = Some (rnd\<lparr>Bets := AList.update pid
            \<lparr>BetData.PlayerID = pid, Amount = amount, Choice = choice,
             BetID = generateBetID now\<rparr> (Bets rnd)\<rparr>)"
  using assms by (auto simp: PlaceBet_def Let_def split: option.splits if_splits)

lemma room_inv_PlaceBet:
  assumes "room_inv r" "PlaceBet r now pid amount choice = Inr r1"
  shows "room_inv r1"
proof -
  from PlaceBet_Inr [OF assms(2)] obtain player rnd where
    f: "map_of (players r) pid = Some player" "currentRound r = Some rnd"
       "gameState r1 = StateBetting"
       "gameState r = StateBetting" "timer r1 = timer r" "resultTimers r1 = resultTimers r"
       "players r1 = AList.update pid
           (player\<lparr>RoomPlayer.Balance := RoomPlayer.Balance player - amount,
                    CurrentBet := Some \<lparr>BetData.PlayerID = pid, Amount = amount, Choice = choice,
                                         BetID = generateBetID now\<rparr>\<rparr>) (players r)"
       "currentRound r1 = Some (rnd\<lparr>Bets := AList.update pid
            \<lparr>BetData.PlayerID = pid, Amount = amount, Choice = choice,
             BetID = generateBetID now\<rparr> (Bets rnd)\<rparr>)"
    by blast
  from assms(1) f(2) have "distinct (map fst (players r))" "distinct (map fst (Bets rnd))"
    "fst ` set (Bets rnd) \<subseteq> fst ` set (players r)"
    "(timer r = Some True) = (gameState r = StateBetting)"
    "resultTimers r = (if gameState r = StateResult then 1 else 0)"
    by (simp_all add: room_inv_def bets_ok_def)
  then show ?thesis
    using f(3-) by (auto simp: room_inv_def bets_ok_def distinct_update keys_update)
qed

lemma startBettingPhase_fields [simp]:
  "players (startBettingPhase r n) = players r"
  "gameState (startBettingPhase r n) = gameState r"
  "currentRound (startBettingPhase r n) = currentRound r"
  "config (startBettingPhase r n) = config r"
  "timer (startBettingPhase r n) = Some True"
  "resultTimers (startBettingPhase r n) = resultTimers r"
  "spawned (startBettingPhase r n) = spawned r @ [TaskBroadcastTimer]"
  by (simp_all add: startBettingPhase_def Let_def)

lemma StartGame_Inr:
  assumes "StartGame r now = Inr r1"
  shows "gameState r = StateWaiting" "RoomConfig.MinPlayers (config r) \<le> int (length (players r))"
    "gameState r1 = StateBetting" "players r1 = players r" "config r1 = config r"
    "currentRound r1 = Some \<lparr>GameRound.ID = generateRoundID r now, StartTime = now, Bets = [],
                     SeedCommits = [], SeedReveals = [], GameRound.FinalSeed = [],
                     GameRound.CoinResult = [], Results = [], State = StateBetting\<rparr>"
    "timer r1 = Some True" "resultTimers r1 = resultTimers r"
  using assms by (auto simp: StartGame_def Let_def split: if_splits)

lemma room_inv_StartGame:
  assumes "room_inv r" "StartGame r now = Inr r1"
  shows "room_inv r1"
  using assms(1) StartGame_Inr [OF assms(2)] by (simp add: room_inv_def bets_ok_def)

lemma settleBets_Cons:
  "settleBets cfg c ((pid, bet) # bets) ps rs =
     (case map_of ps pid of
        None \<Rightarrow> Inl PanicNilDeref
      | Some player \<Rightarrow>
          settleBets cfg c bets (AList.update pid (settledPlayer cfg c bet player) ps)
            (AList.update pid (settledResult cfg c pid bet player) rs))"
  by (simp add: Let_def settledPlayer_def settledResult_def split: option.splits)

lemma settleBets_keys:
  "settleBets cfg c bets ps rs = Inr res \<Longrightarrow> map fst (fst res) = map fst ps"
proof (induction bets arbitrary: ps rs)
  case Nil
  then show ?case by auto
next
  case (Cons b bets)
  obtain pid bet where b: "b = (pid, bet)" by (cases b)
  from Cons.prems b obtain player where pl: "map_of ps pid = Some player"
    by (auto simp: settleBets_Cons simp del: settleBets.simps split: option.splits)
  then have "pid \<in> set (map fst ps)" by (auto dest: map_of_SomeD intro: rev_image_eqI)
  then have k: "\<And>v. map fst (AList.update pid v ps) = map fst ps" by (simp add: update_keys)
  from Cons.prems b pl have "settleBets cfg c bets (AList.update pid (settledPlayer cfg c bet player) ps)
            (AList.update pid (settledResult cfg c pid bet player) rs) = Inr res"
    by (simp add: settleBets_Cons del: settleBets.simps)
  from Cons.IH [OF this] show ?case by (simp add: k)
qed

lemma settleBets_total:
  "fst ` set bets \<subseteq> fst ` set ps \<Longrightarrow> \<exists>res. settleBets cfg c bets ps rs = Inr res"
proof (induction bets arbitrary: ps rs)
  case Nil
  then show ?case by simp
next
  case (Cons b bets)
  obtain pid bet where b: "b = (pid, bet)" by (cases b)
  with Cons.prems have "pid \<in> fst ` set ps" by simp
  then obtain player where pl: "map_of ps pid = Some player"
    by (metis map_of_eq_None_iff not_Some_eq)
  have "\<And>v. fst ` set bets \<subseteq> fst ` set (AList.update pid v ps)"
    using Cons.prems by (auto simp: keys_update)
  from this [THEN Cons.IH] show ?case using b pl
    by (simp add: settleBets_Cons del: settleBets.simps)
qed

lemma generateFinalResult_Inr:
  assumes "generateFinalResult r seed rv = Inr r1"
  shows "\<exists>rnd res. currentRound r = Some rnd
     \<and> settleBets (config r) (coinOf seed rv) (Bets rnd) (players r) (Results rnd) = Inr res
     \<and> r1 = r\<lparr>players := fst res,
              currentRound := Some (rnd\<lparr>GameRound.FinalSeed := seed,
                                         GameRound.CoinResult := coinOf seed rv,
                                         Results := snd res\<rparr>)\<rparr>"
  using assms
  by (auto simp: generateFinalResult_def Let_def coinOf_def simp del: settleBets.simps
      split: option.splits sum.splits)

lemma startResultPhase_Inr:
  assumes "startResultPhase r now = Inr r1"
  shows "gameState r1 = StateResult" "currentRound r1 = currentRound r" "players r1 = players r"
    "resultTimers r1 = resultTimers r + 1" "currentRound r \<noteq> None" "config r1 = config r"
    "timer r1 = timer r" "spawned r1 = spawned r"
  using assms by (auto simp: startResultPhase_def Let_def split: option.splits)

lemma resultTimerFired_fields [simp]:
  "gameState (resultTimerFired r now) = StateWaiting"
  "currentRound (resultTimerFired r now) = None"
  "players (resultTimerFired r now) = players r"
  "config (resultTimerFired r now) = config r"
  "timer (resultTimerFired r now) = timer r"
  "resultTimers (resultTimerFired r now) = resultTimers r"
  by (simp_all add: resultTimerFired_def Let_def)

lemma room_inv_resultTimerFired:
  "room_inv r \<Longrightarrow> 0 < resultTimers r \<Longrightarrow>
   room_inv (resultTimerFired (r\<lparr>resultTimers := resultTimers r - 1\<rparr>) now)"
  by (auto simp: room_inv_def bets_ok_def split: if_splits)

lemma endBettingPhase_cases:
  assumes "endBettingPhase r now seed rv = Inr r1"
  shows "(gameState r \<noteq> StateBetting \<and> r1 = r)
    \<or> (gameState r = StateBetting \<and> (\<exists>rnd. currentRound r = Some rnd \<and> Bets rnd = [])
        \<and> gameState r1 = StateWaiting \<and> currentRound r1 = None \<and> players r1 = players r
        \<and> timer r1 = timer r \<and> resultTimers r1 = resultTimers r)
    \<or> (gameState r = StateBetting \<and> (\<exists>rnd. currentRound r = Some rnd \<and> Bets rnd \<noteq> [])
        \<and> (\<exists>r2. generateFinalResult (logf (r\<lparr>gameState := StateRevealing\<rparr>) Info ''Betting phase ended'') seed rv = Inr r2
              \<and> startResultPhase r2 now = Inr r1))"
  using assms
  by (auto simp: endBettingPhase_def Let_def split: if_splits option.splits sum.splits)

lemma room_inv_endBettingPhase:
  assumes "room_inv r" "timer r = Some True"
    "endBettingPhase (r\<lparr>timer := Some False\<rparr>) now seed rv = Inr r1"
  shows "room_inv r1"
proof -
  let ?r = "r\<lparr>timer := Some False\<rparr>"
  from assms(1,2) have b: "gameState r = StateBetting" by (simp add: room_inv_def)
  from endBettingPhase_cases [OF assms(3)] b
  consider (empty) "gameState r1 = StateWaiting" "currentRound r1 = None"
        "players r1 = players ?r" "timer r1 = timer ?r" "resultTimers r1 = resultTimers ?r"
    | (settle) rnd r2 where "currentRound ?r = Some rnd"
        "generateFinalResult (logf (?r\<lparr>gameState := StateRevealing\<rparr>) Info ''Betting phase ended'') seed rv = Inr r2"
        "startResultPhase r2 now = Inr r1"
    by auto
  then show ?thesis
  proof cases
    case empty
    with assms(1) b show ?thesis by (simp add: room_inv_def bets_ok_def)
  next
    case settle
    from generateFinalResult_Inr [OF settle(2)] settle(1) obtain res where
      res: "settleBets (config r) (coinOf seed rv) (Bets rnd) (players r) (Results rnd) = Inr res"
        "players r2 = fst res"
        "currentRound r2 = Some (rnd\<lparr>GameRound.FinalSeed := seed,
                                         GameRound.CoinResult := coinOf seed rv,
                                         Results := snd res\<rparr>)"
        "timer r2 = Some False" "resultTimers r2 = resultTimers r"
      by auto
    from settleBets_keys [OF res(1)] have k: "map fst (players r2) = map fst (players r)"
      by (simp add: res(2))
    then have k2: "fst ` set (players r2) = fst ` set (players r)"
      by (metis list.set_map)
    from startResultPhase_Inr [OF settle(3)] assms(1) b settle(1) res(3,4,5) k k2
    show ?thesis by (simp add: room_inv_def bets_ok_def)
  qed
qed

lemma room_inv_runTask:
  assumes "room_inv r"
  shows "room_inv (runTask (r\<lparr>spawned := ts\<rparr>) now t)"
proof -
  have i: "room_inv (r\<lparr>spawned := ts\<rparr>)" using assms by (simp add: room_inv_def)
  have l: "room_inv (logf (r\<lparr>spawned := ts\<rparr>) Error ''Failed to auto-start game'')"
    using assms by (simp add: room_inv_def)
  show ?thesis
  proof (cases t)
    case TaskAutoStart
    then show ?thesis using l room_inv_StartGame [OF i]
      by (simp split: sum.splits)
  next
    case TaskNextRound
    then show ?thesis using i room_inv_StartGame [OF i]
      by (simp split: sum.splits)
  next
    case TaskBroadcastTimer
    then show ?thesis using i
      by (auto simp: broadcastTimer_tick_def Let_def room_inv_def)
  qed
qed

lemma room_inv_apply_event:
  assumes "room_inv r" "apply_event r now ev = Some r1"
  shows "room_inv r1"
proof (cases ev)
  case (EvAddPlayer pid pname bal)
  with assms show ?thesis
    by (auto simp: keep_def split: sum.splits dest: room_inv_AddPlayer)
next
  case (EvRemovePlayer pid)
  with assms show ?thesis
    by (auto simp: keep_def split: sum.splits dest: room_inv_RemovePlayer)
next
  case (EvPlaceBet pid amount choice)
  with assms show ?thesis
    by (auto simp: keep_def split: sum.splits dest: room_inv_PlaceBet)
next
  case EvStartGame
  with assms show ?thesis
    by (auto simp: keep_def split: sum.splits dest: room_inv_StartGame)
next
  case (EvBettingTimer seed rv)
  with assms show ?thesis
    by (auto simp: crash_def split: sum.splits if_splits intro: room_inv_endBettingPhase)
next
  case EvResultTimer
  with assms room_inv_resultTimerFired [of r now] show ?thesis
    by (auto split: if_splits)
next
  case (EvRunTask t)
  with assms show ?thesis
    by (auto split: if_splits intro: room_inv_runTask)
next
  case EvRelay
  with assms show ?thesis
    by (auto simp: room_inv_def split: list.splits)
qed

lemma reachable_room_inv: "reachable r \<Longrightarrow> room_inv r"
  by (induction rule: reachable.induct) (auto intro: room_inv_NewGameRoom room_inv_apply_event)

lemma reachable_run: "reachable r \<Longrightarrow> run r evs = Some r1 \<Longrightarrow> reachable r1"
proof (induction evs arbitrary: r)
  case Nil
  then show ?case by simp
next
  case (Cons e evs)
  obtain now ev where e: "e = (now, ev)" by (cases e)
  from Cons.prems(2) e obtain r2 where s: "apply_event r now ev = Some r2" "run r2 evs = Some r1"
    by (auto split: option.splits)
  from Cons.prems(1) s(1) have "reachable r2" by (rule reachable_step)
  from Cons.IH [OF this s(2)] show ?case .
qed

lemma reachable_after: "reachable r \<Longrightarrow> reachable (after r evs)"
  by (auto simp: after_def split: option.splits intro: reachable_run)

lemma reachable_room_new: "reachable room_new"
  unfolding room_new_def by (rule reachable_new)

lemma reachable_room_betting: "reachable room_betting"
  unfolding room_betting_def by (rule reachable_after [OF reachable_room_new])

lemma reachable_room_bets: "reachable room_bets"
  unfolding room_bets_def by (rule reachable_after [OF reachable_room_betting])

lemma reachable_room_paused: "reachable room_paused"
  unfolding room_paused_def by (rule reachable_after [OF reachable_room_betting])


subsection \<open>Placing a bet\<close>




subsection \<open>Phase and round\<close>

text \<open>
  Claim C2, as stated, fails: a room whose roster drops below the minimum during betting
  is paused, and \<^verbatim>\<open>pauseGame\<close> keeps the round. The example is the room of two players
  in the betting phase after the first player has left.
\<close>

theorem round_in_paused_phase_counterexample:
  "reachable room_paused
   \<and> \<not> ((currentRound room_paused \<noteq> None) =
          (gameState room_paused = StateBetting \<or> gameState room_paused = StateRevealing
           \<or> gameState room_paused = StateResult))"
proof -
  have "gameState room_paused = StatePaused" by code_simp
  moreover have "currentRound room_paused \<noteq> None" by code_simp
  ultimately show ?thesis using reachable_room_paused by simp
qed

text \<open>
  Claim C2, amended. In every reachable state of a room the phase is waiting exactly when
  there is no round, and a round exists exactly when the phase is betting, revealing,
  result or paused.
\<close>

theorem round_presence_by_phase:
  assumes "reachable r"
  shows "((gameState r = StateWaiting) = (currentRound r = None))
       \<and> ((currentRound r \<noteq> None) =
            (gameState r = StateBetting \<or> gameState r = StateRevealing
             \<or> gameState r = StateResult \<or> gameState r = StatePaused))"
proof -
  from reachable_room_inv [OF assms]
  have "(currentRound r = None) = (gameState r = StateWaiting)" by (simp add: room_inv_def)
  then show ?thesis by (cases \<open>gameState r\<close>) auto
qed

theorem round_presence_by_phase_witness:
  "gameState room_paused = StatePaused \<and> currentRound room_paused \<noteq> None
   \<and> gameState room_new = StateWaiting \<and> currentRound room_new = None"
proof -
  have p: "gameState room_paused = StatePaused" "gameState room_new = StateWaiting"
    by code_simp+
  from round_presence_by_phase [OF reachable_room_paused] p(1)
  have "currentRound room_paused \<noteq> None" by simp
  moreover from round_presence_by_phase [OF reachable_room_new] p(2)
  have "currentRound room_new = None" by simp
  ultimately show ?thesis using p by simp
qed

subsection \<open>Joining a room\<close>

lemma AddPlayer_ok:
  assumes "int (length (players r)) < RoomConfig.MaxPlayers (config r)"
  shows "AddPlayer r now pid pname bal =
     Inr (checkAndStartGame (broadcastRoomUpdate (logf
       (r\<lparr>players := AList.update pid (newPlayer pid pname bal now) (players r), lastActivity := now\<rparr>)
       Info ''Player joined room'') now))"
  using assms by (simp add: AddPlayer_def Let_def newPlayer_def)

lemma checkAndStartGame_spawned:
  "spawned (checkAndStartGame r) =
     (if RoomConfig.MinPlayers (config r) \<le> int (length (players r)) \<and> gameState r = StateWaiting
      then spawned r @ [TaskAutoStart] else spawned r)"
  "totalRounds (checkAndStartGame r) = totalRounds r"
  by (simp_all add: checkAndStartGame_def)

lemma startBettingPhase_totalRounds [simp]:
  "totalRounds (startBettingPhase r n) = totalRounds r"
  by (simp add: startBettingPhase_def Let_def)

lemma runTask_AutoStart_not_waiting:
  assumes "gameState r \<noteq> StateWaiting"
  shows "currentRound (runTask r now TaskAutoStart) = currentRound r"
    "totalRounds (runTask r now TaskAutoStart) = totalRounds r"
  using assms by (simp_all add: StartGame_def)

lemma StartGame_ok:
  assumes "RoomConfig.MinPlayers (config r) \<le> int (length (players r))" "gameState r = StateWaiting"
  shows "\<exists>r1. StartGame r now = Inr r1 \<and> gameState r1 = StateBetting
     \<and> (\<exists>rnd. currentRound r1 = Some rnd \<and> Bets rnd = [])
     \<and> totalRounds r1 = totalRounds r + 1 \<and> players r1 = players r"
  using assms by (simp add: StartGame_def Let_def)

lemma StartGame_not_waiting:
  assumes "gameState r \<noteq> StateWaiting"
  shows "\<exists>e. StartGame r now = Inl e"
  using assms by (simp add: StartGame_def)

text \<open>
  Claim C5. \<^verbatim>\<open>AddPlayer\<close> fails with \<open>ErrRoomFull\<close> when the roster has reached the
  configured maximum, and the room is then unchanged. Otherwise it inserts the player and
  changes neither the phase nor the round. If the phase is waiting and the roster has now
  reached the minimum, it starts the auto-start goroutine, and the run of that goroutine
  puts the room into the betting phase with a new, empty round. If the phase is not
  waiting (a round is running), it starts no goroutine, \<^verbatim>\<open>StartGame\<close> on the
  resulting room fails, and an auto-start still pending from before changes neither the
  round nor the round counter: there is never a second round.
\<close>

theorem AddPlayer_capacity_and_autostart:
  "(RoomConfig.MaxPlayers (config r) \<le> int (length (players r)) \<longrightarrow>
      AddPlayer r now pid pname bal = Inl ErrRoomFull
    \<and> apply_event r now (EvAddPlayer pid pname bal) = Some r)
   \<and> (int (length (players r)) < RoomConfig.MaxPlayers (config r) \<longrightarrow>
      (\<exists>r1. AddPlayer r now pid pname bal = Inr r1
         \<and> players r1 = AList.update pid (newPlayer pid pname bal now) (players r)
         \<and> gameState r1 = gameState r \<and> currentRound r1 = currentRound r
         \<and> totalRounds r1 = totalRounds r
         \<and> (gameState r = StateWaiting
              \<and> RoomConfig.MinPlayers (config r) \<le> int (length (players r1)) \<longrightarrow>
               spawned r1 = spawned r @ [TaskAutoStart]
             \<and> (\<forall>now2. \<exists>r2 rnd.
                    apply_event r1 now2 (EvRunTask TaskAutoStart) = Some r2
                  \<and> gameState r2 = StateBetting
                  \<and> currentRound r2 = Some rnd \<and> Bets rnd = []
                  \<and> totalRounds r2 = totalRounds r + 1))
         \<and> (gameState r \<noteq> StateWaiting \<longrightarrow>
               spawned r1 = spawned r
             \<and> (\<forall>now2. \<exists>e. StartGame r1 now2 = Inl e)
             \<and> (\<forall>now2. currentRound (runTask r1 now2 TaskAutoStart) = currentRound r
                      \<and> totalRounds (runTask r1 now2 TaskAutoStart) = totalRounds r))))"
proof (intro conjI impI)
  assume "RoomConfig.MaxPlayers (config r) \<le> int (length (players r))"
  then show "AddPlayer r now pid pname bal = Inl ErrRoomFull"
    by (simp add: AddPlayer_def)
  then show "apply_event r now (EvAddPlayer pid pname bal) = Some r"
    by (simp add: keep_def)
next
  assume lt: "int (length (players r)) < RoomConfig.MaxPlayers (config r)"
  define r1 where "r1 = checkAndStartGame (broadcastRoomUpdate (logf
       (r\<lparr>players := AList.update pid (newPlayer pid pname bal now) (players r), lastActivity := now\<rparr>)
       Info ''Player joined room'') now)"
  have a: "AddPlayer r now pid pname bal = Inr r1"
    unfolding r1_def by (rule AddPlayer_ok [OF lt])
  have f: "players r1 = AList.update pid (newPlayer pid pname bal now) (players r)"
    "gameState r1 = gameState r" "currentRound r1 = currentRound r" "config r1 = config r"
    "totalRounds r1 = totalRounds r"
    by (simp_all add: r1_def checkAndStartGame_spawned)
  have sp: "spawned r1 =
     (if RoomConfig.MinPlayers (config r) \<le> int (length (players r1)) \<and> gameState r = StateWaiting
      then spawned r @ [TaskAutoStart] else spawned r)"
    unfolding f(1) by (simp add: r1_def checkAndStartGame_spawned)
  have w: "\<forall>now2. \<exists>r2 rnd.
                    apply_event r1 now2 (EvRunTask TaskAutoStart) = Some r2
                  \<and> gameState r2 = StateBetting
                  \<and> currentRound r2 = Some rnd \<and> Bets rnd = []
                  \<and> totalRounds r2 = totalRounds r + 1"
    if h: "gameState r = StateWaiting \<and> RoomConfig.MinPlayers (config r) \<le> int (length (players r1))"
  proof
    fix now2
    let ?q = "r1\<lparr>spawned := remove1 TaskAutoStart (spawned r1)\<rparr>"
    have "RoomConfig.MinPlayers (config ?q) \<le> int (length (players ?q))" "gameState ?q = StateWaiting"
      using h f by simp_all
    from StartGame_ok [OF this, of now2] obtain r2 where
      "StartGame ?q now2 = Inr r2" "gameState r2 = StateBetting"
      "\<exists>rnd. currentRound r2 = Some rnd \<and> Bets rnd = []" "totalRounds r2 = totalRounds ?q + 1"
      by blast
    moreover have "TaskAutoStart \<in> set (spawned r1)" using sp h by simp
    ultimately show "\<exists>r2 rnd.
                    apply_event r1 now2 (EvRunTask TaskAutoStart) = Some r2
                  \<and> gameState r2 = StateBetting
                  \<and> currentRound r2 = Some rnd \<and> Bets rnd = []
                  \<and> totalRounds r2 = totalRounds r + 1"
      using f(5) by auto
  qed
  have n: "spawned r1 = spawned r
             \<and> (\<forall>now2. \<exists>e. StartGame r1 now2 = Inl e)
             \<and> (\<forall>now2. currentRound (runTask r1 now2 TaskAutoStart) = currentRound r
                      \<and> totalRounds (runTask r1 now2 TaskAutoStart) = totalRounds r)"
    if h: "gameState r \<noteq> StateWaiting"
  proof -
    from h f(2) have g: "gameState r1 \<noteq> StateWaiting" by simp
    have "\<exists>e. StartGame r1 now2 = Inl e" for now2
      by (rule StartGame_not_waiting [OF g])
    then show ?thesis using sp h f(3,5) runTask_AutoStart_not_waiting [OF g] by simp
  qed
  show "\<exists>r1. AddPlayer r now pid pname bal = Inr r1
         \<and> players r1 = AList.update pid (newPlayer pid pname bal now) (players r)
         \<and> gameState r1 = gameState r \<and> currentRound r1 = currentRound r
         \<and> totalRounds r1 = totalRounds r
         \<and> (gameState r = StateWaiting
              \<and> RoomConfig.MinPlayers (config r) \<le> int (length (players r1)) \<longrightarrow>
               spawned r1 = spawned r @ [TaskAutoStart]
             \<and> (\<forall>now2. \<exists>r2 rnd.
                    apply_event r1 now2 (EvRunTask TaskAutoStart) = Some r2
                  \<and> gameState r2 = StateBetting
                  \<and> currentRound r2 = Some rnd \<and> Bets rnd = []
                  \<and> totalRounds r2 = totalRounds r + 1))
         \<and> (gameState r \<noteq> StateWaiting \<longrightarrow>
               spawned r1 = spawned r
             \<and> (\<forall>now2. \<exists>e. StartGame r1 now2 = Inl e)
             \<and> (\<forall>now2. currentRound (runTask r1 now2 TaskAutoStart) = currentRound r
                      \<and> totalRounds (runTask r1 now2 TaskAutoStart) = totalRounds r))"
    using a f(1,2,3,5) sp w n by (intro exI [of _ r1]) auto
qed

theorem AddPlayer_capacity_and_autostart_witness:
  "AddPlayer room_full 9 ''P5'' ''Eve'' 100 = Inl ErrRoomFull
   \<and> (\<exists>r1 r2. AddPlayer room_one 2 ''P2'' ''Bob'' 100 = Inr r1
          \<and> apply_event r1 3 (EvRunTask TaskAutoStart) = Some r2
          \<and> gameState r2 = StateBetting)
   \<and> (\<exists>r1. AddPlayer room_betting 4 ''P3'' ''Cy'' 5 = Inr r1
          \<and> currentRound r1 = currentRound room_betting
          \<and> spawned r1 = spawned room_betting)"
proof -
  have full: "RoomConfig.MaxPlayers (config room_full) \<le> int (length (players room_full))"
    by code_simp
  have c1: "AddPlayer room_full 9 ''P5'' ''Eve'' 100 = Inl ErrRoomFull"
    using AddPlayer_capacity_and_autostart [of room_full 9 "''P5''" "''Eve''" 100] full by simp
  have one: "int (length (players room_one)) < RoomConfig.MaxPlayers (config room_one)"
    "gameState room_one = StateWaiting" "RoomConfig.MinPlayers (config room_one) = 2"
    "length (players room_one) = 1"
    by code_simp+
  from AddPlayer_capacity_and_autostart [of room_one 2 "''P2''" "''Bob''" 100] one(1)
  obtain r1 where r1: "AddPlayer room_one 2 ''P2'' ''Bob'' 100 = Inr r1"
    "players r1 = AList.update ''P2'' (newPlayer ''P2'' ''Bob'' 100 2) (players room_one)"
    "gameState room_one = StateWaiting
       \<and> RoomConfig.MinPlayers (config room_one) \<le> int (length (players r1)) \<longrightarrow>
      (\<forall>now2. \<exists>r2 rnd. apply_event r1 now2 (EvRunTask TaskAutoStart) = Some r2
                  \<and> gameState r2 = StateBetting
                  \<and> currentRound r2 = Some rnd \<and> Bets rnd = []
                  \<and> totalRounds r2 = totalRounds room_one + 1)"
    by blast
  have "length (players r1) = 2"
    unfolding r1(2) by code_simp
  with r1(3) one(2,3) have "\<forall>now2. \<exists>r2 rnd. apply_event r1 now2 (EvRunTask TaskAutoStart) = Some r2
                  \<and> gameState r2 = StateBetting
                  \<and> currentRound r2 = Some rnd \<and> Bets rnd = []
                  \<and> totalRounds r2 = totalRounds room_one + 1"
    by simp
  then obtain r2 where "apply_event r1 3 (EvRunTask TaskAutoStart) = Some r2"
    "gameState r2 = StateBetting"
    by blast
  with r1(1) have c2: "\<exists>r1 r2. AddPlayer room_one 2 ''P2'' ''Bob'' 100 = Inr r1
          \<and> apply_event r1 3 (EvRunTask TaskAutoStart) = Some r2
          \<and> gameState r2 = StateBetting"
    by blast
  have bet: "int (length (players room_betting)) < RoomConfig.MaxPlayers (config room_betting)"
    "gameState room_betting \<noteq> StateWaiting"
    by code_simp+
  from AddPlayer_capacity_and_autostart [of room_betting 4 "''P3''" "''Cy''" 5] bet
  have c3: "\<exists>r1. AddPlayer room_betting 4 ''P3'' ''Cy'' 5 = Inr r1
          \<and> currentRound r1 = currentRound room_betting
          \<and> spawned r1 = spawned room_betting"
    by blast
  from c1 c2 c3 show ?thesis by blast
qed

lemma length_update:
  "length (AList.update k v al) = (if k \<in> fst ` set al then length al else Suc (length al))"
  by (induction al) auto

text \<open>
  Claim C10. \<^verbatim>\<open>AddPlayer\<close> with an id that is already in the roster (the room not
  being full) succeeds: the entry of that id is replaced by a fresh one with the balance
  given in the call, no current bet and empty totals; the roster keeps its size and its
  other entries; the round, with any bet the player has placed in it, is unchanged (the
  bet is neither removed nor refunded).
\<close>

theorem AddPlayer_existing_id:
  assumes "map_of (players r) pid = Some old"
    and "int (length (players r)) < RoomConfig.MaxPlayers (config r)"
  shows "\<exists>r1. AddPlayer r now pid pname bal = Inr r1
     \<and> map_of (players r1) pid =
         Some \<lparr>RoomPlayer.ID = pid, RoomPlayer.Name = pname,
               RoomPlayer.Balance = bal, RoomPlayer.IsReady = False,
               RoomPlayer.IsOnline = True, LastSeen = now, CurrentBet = None,
               TotalGames = 0, TotalWins = 0, NetProfit = 0\<rparr>
     \<and> length (players r1) = length (players r)
     \<and> (\<forall>k. k \<noteq> pid \<longrightarrow> map_of (players r1) k = map_of (players r) k)
     \<and> currentRound r1 = currentRound r \<and> gameState r1 = gameState r"
proof -
  from assms(1) have "pid \<in> fst ` set (players r)"
    by (metis map_of_eq_None_iff option.distinct(1))
  then have "length (AList.update pid v (players r)) = length (players r)" for v
    by (simp add: length_update)
  then show ?thesis
    using AddPlayer_ok [OF assms(2), of now pid pname bal]
    by (simp add: update_conv' newPlayer_def)
qed

theorem AddPlayer_existing_id_witness:
  "\<exists>r1 p. AddPlayer room_bets 6 ''P1'' ''Ann'' 500 = Inr r1
     \<and> map_of (players r1) ''P1'' = Some p \<and> RoomPlayer.Balance p = 500 \<and> CurrentBet p = None
     \<and> length (players r1) = 2
     \<and> map_option (\<lambda>rnd. map_option Amount (map_of (Bets rnd) ''P1'')) (currentRound r1) = Some (Some 10)"
proof -
  have "map_of (players room_bets) ''P1'' \<noteq> None" by code_simp
  then obtain old where o: "map_of (players room_bets) ''P1'' = Some old" by auto
  have f: "int (length (players room_bets)) < RoomConfig.MaxPlayers (config room_bets)"
    "length (players room_bets) = 2"
    "map_option (\<lambda>rnd. map_option Amount (map_of (Bets rnd) ''P1'')) (currentRound room_bets) = Some (Some 10)"
    by code_simp+
  from AddPlayer_existing_id [OF o f(1), of 6 "''Ann''" 500] f(2,3)
  show ?thesis by auto
qed

subsection \<open>Leaving a room\<close>

lemma RemovePlayer_ok:
  assumes "map_of (players r) pid = Some player"
  shows "\<exists>r1. RemovePlayer r now pid = Inr r1
     \<and> players r1 = AList.delete pid (players (cancelActiveBet r pid player))
     \<and> currentRound r1 = currentRound (cancelActiveBet r pid player)
     \<and> gameState r1 =
         (if int (length (players r1)) < RoomConfig.MinPlayers (config r) \<and> gameState r = StateBetting
          then StatePaused else gameState r)
     \<and> timer r1 =
         (if int (length (players r1)) < RoomConfig.MinPlayers (config r) \<and> gameState r = StateBetting
          then (case timer r of None \<Rightarrow> None | Some t \<Rightarrow> Some False) else timer r)"
  using assms by (simp add: RemovePlayer_def Let_def)

text \<open>
  Claim C6. \<^verbatim>\<open>RemovePlayer\<close> fails with \<open>ErrPlayerNotFound\<close> for an id that is not in
  the roster, and the room is then unchanged. Otherwise it succeeds and the player is no
  longer in the roster, whose other entries are unchanged. If the player has a bet in the
  current round, then first (in the state \<open>cancelActiveBet\<close>, before the entry is deleted)
  the amount of the bet is added to the player's balance, and the bet is deleted from the
  round; without such a bet the round is unchanged. If the roster is now below the
  minimum and the phase was betting, the phase becomes paused and the betting timer is
  no longer pending; otherwise phase and timer are unchanged.
\<close>

theorem RemovePlayer_refund_and_pause:
  "(map_of (players r) pid = None \<longrightarrow>
      RemovePlayer r now pid = Inl ErrPlayerNotFound
    \<and> apply_event r now (EvRemovePlayer pid) = Some r)
   \<and> (\<forall>player. map_of (players r) pid = Some player \<longrightarrow>
      (\<exists>r1. RemovePlayer r now pid = Inr r1
         \<and> players r1 = AList.delete pid (players (cancelActiveBet r pid player))
         \<and> map_of (players r1) pid = None
         \<and> (\<forall>k. k \<noteq> pid \<longrightarrow> map_of (players r1) k = map_of (players r) k)
         \<and> (\<forall>rnd bet. currentRound r = Some rnd \<and> map_of (Bets rnd) pid = Some bet \<longrightarrow>
                map_of (players (cancelActiveBet r pid player)) pid =
                  Some (player\<lparr>RoomPlayer.Balance := RoomPlayer.Balance player + Amount bet\<rparr>)
              \<and> currentRound r1 = Some (rnd\<lparr>Bets := AList.delete pid (Bets rnd)\<rparr>)
              \<and> map_of (AList.delete pid (Bets rnd)) pid = None)
         \<and> (currentRound r = None \<longrightarrow> currentRound r1 = None)
         \<and> (\<forall>rnd. currentRound r = Some rnd \<and> map_of (Bets rnd) pid = None \<longrightarrow>
                currentRound r1 = Some rnd)
         \<and> (int (length (players r1)) < RoomConfig.MinPlayers (config r)
              \<and> gameState r = StateBetting \<longrightarrow>
                gameState r1 = StatePaused \<and> timer r1 \<noteq> Some True)
         \<and> (\<not> (int (length (players r1)) < RoomConfig.MinPlayers (config r)
                 \<and> gameState r = StateBetting) \<longrightarrow>
                gameState r1 = gameState r \<and> timer r1 = timer r)))"
proof (intro conjI impI allI)
  assume "map_of (players r) pid = None"
  then show "RemovePlayer r now pid = Inl ErrPlayerNotFound"
    by (simp add: RemovePlayer_def)
  then show "apply_event r now (EvRemovePlayer pid) = Some r"
    by (simp add: keep_def)
next
  fix player
  assume p: "map_of (players r) pid = Some player"
  from RemovePlayer_ok [OF p, of now] obtain r1 where
    r1: "RemovePlayer r now pid = Inr r1"
      "players r1 = AList.delete pid (players (cancelActiveBet r pid player))"
      "currentRound r1 = currentRound (cancelActiveBet r pid player)"
      "gameState r1 =
         (if int (length (players r1)) < RoomConfig.MinPlayers (config r) \<and> gameState r = StateBetting
          then StatePaused else gameState r)"
      "timer r1 =
         (if int (length (players r1)) < RoomConfig.MinPlayers (config r) \<and> gameState r = StateBetting
          then (case timer r of None \<Rightarrow> None | Some t \<Rightarrow> Some False) else timer r)"
    by blast
  have k: "\<forall>k. k \<noteq> pid \<longrightarrow> map_of (players r1) k = map_of (players r) k"
    unfolding r1(2) by (simp add: cancelActiveBet_def delete_conv' update_conv' split: option.splits)
  have b: "\<forall>rnd bet. currentRound r = Some rnd \<and> map_of (Bets rnd) pid = Some bet \<longrightarrow>
                map_of (players (cancelActiveBet r pid player)) pid =
                  Some (player\<lparr>RoomPlayer.Balance := RoomPlayer.Balance player + Amount bet\<rparr>)
              \<and> currentRound r1 = Some (rnd\<lparr>Bets := AList.delete pid (Bets rnd)\<rparr>)
              \<and> map_of (AList.delete pid (Bets rnd)) pid = None"
    unfolding r1(3) by (simp add: cancelActiveBet_def delete_conv' update_conv')
  have n: "currentRound r = None \<longrightarrow> currentRound r1 = None"
    "\<forall>rnd. currentRound r = Some rnd \<and> map_of (Bets rnd) pid = None \<longrightarrow> currentRound r1 = Some rnd"
    unfolding r1(3) by (simp_all add: cancelActiveBet_def)
  have t: "int (length (players r1)) < RoomConfig.MinPlayers (config r)
              \<and> gameState r = StateBetting \<longrightarrow>
                gameState r1 = StatePaused \<and> timer r1 \<noteq> Some True"
    using r1(4,5) by (simp split: option.splits)
  have u: "\<not> (int (length (players r1)) < RoomConfig.MinPlayers (config r)
                 \<and> gameState r = StateBetting) \<longrightarrow>
                gameState r1 = gameState r \<and> timer r1 = timer r"
    using r1(4,5) by simp
  have d: "map_of (players r1) pid = None"
    unfolding r1(2) by (simp add: delete_conv')
  show "\<exists>r1. RemovePlayer r now pid = Inr r1
         \<and> players r1 = AList.delete pid (players (cancelActiveBet r pid player))
         \<and> map_of (players r1) pid = None
         \<and> (\<forall>k. k \<noteq> pid \<longrightarrow> map_of (players r1) k = map_of (players r) k)
         \<and> (\<forall>rnd bet. currentRound r = Some rnd \<and> map_of (Bets rnd) pid = Some bet \<longrightarrow>
                map_of (players (cancelActiveBet r pid player)) pid =
                  Some (player\<lparr>RoomPlayer.Balance := RoomPlayer.Balance player + Amount bet\<rparr>)
              \<and> currentRound r1 = Some (rnd\<lparr>Bets := AList.delete pid (Bets rnd)\<rparr>)
              \<and> map_of (AList.delete pid (Bets rnd)) pid = None)
         \<and> (currentRound r = None \<longrightarrow> currentRound r1 = None)
         \<and> (\<forall>rnd. currentRound r = Some rnd \<and> map_of (Bets rnd) pid = None \<longrightarrow>
                currentRound r1 = Some rnd)
         \<and> (int (length (players r1)) < RoomConfig.MinPlayers (config r)
              \<and> gameState r = StateBetting \<longrightarrow>
                gameState r1 = StatePaused \<and> timer r1 \<noteq> Some True)
         \<and> (\<not> (int (length (players r1)) < RoomConfig.MinPlayers (config r)
                 \<and> gameState r = StateBetting) \<longrightarrow>
                gameState r1 = gameState r \<and> timer r1 = timer r)"
    using r1(1,2) d k b n t u by (intro exI [of _ r1] conjI) 
qed

theorem RemovePlayer_refund_and_pause_witness:
  "RemovePlayer room_betting 4 ''P9'' = Inl ErrPlayerNotFound
   \<and> (\<exists>player r1 rnd1.
         map_of (players room_bets) ''P1'' = Some player \<and> RoomPlayer.Balance player = 90
       \<and> map_option RoomPlayer.Balance (map_of (players (cancelActiveBet room_bets ''P1'' player)) ''P1'')
            = Some 100
       \<and> RemovePlayer room_bets 6 ''P1'' = Inr r1
       \<and> map_of (players r1) ''P1'' = None
       \<and> currentRound r1 = Some rnd1 \<and> map_of (Bets rnd1) ''P1'' = None
       \<and> gameState r1 = StatePaused \<and> timer r1 \<noteq> Some True)"
proof -
  have n: "map_of (players room_betting) ''P9'' = None" by code_simp
  have c1: "RemovePlayer room_betting 4 ''P9'' = Inl ErrPlayerNotFound"
    using RemovePlayer_refund_and_pause [of room_betting "''P9''" 4] n by simp
  have "map_option RoomPlayer.Balance (map_of (players room_bets) ''P1'') = Some 90" by code_simp
  then obtain player where p: "map_of (players room_bets) ''P1'' = Some player"
    "RoomPlayer.Balance player = 90"
    by auto
  have "map_option (\<lambda>rnd. map_option Amount (map_of (Bets rnd) ''P1'')) (currentRound room_bets)
          = Some (Some 10)"
    by code_simp
  then obtain rnd bet where b: "currentRound room_bets = Some rnd" "map_of (Bets rnd) ''P1'' = Some bet"
    "Amount bet = 10"
    by auto
  have g: "gameState room_bets = StateBetting" "RoomConfig.MinPlayers (config room_bets) = 2"
    "length (players room_bets) = 2" "map fst (players room_bets) = [''P1'', ''P2'']"
    by code_simp+
  from RemovePlayer_refund_and_pause [of room_bets "''P1''" 6] p(1) obtain r1 where
    r1: "RemovePlayer room_bets 6 ''P1'' = Inr r1"
      "players r1 = AList.delete ''P1'' (players (cancelActiveBet room_bets ''P1'' player))"
      "map_of (players r1) ''P1'' = None"
      "\<forall>rnd bet. currentRound room_bets = Some rnd \<and> map_of (Bets rnd) ''P1'' = Some bet \<longrightarrow>
                map_of (players (cancelActiveBet room_bets ''P1'' player)) ''P1'' =
                  Some (player\<lparr>RoomPlayer.Balance := RoomPlayer.Balance player + Amount bet\<rparr>)
              \<and> currentRound r1 = Some (rnd\<lparr>Bets := AList.delete ''P1'' (Bets rnd)\<rparr>)
              \<and> map_of (AList.delete ''P1'' (Bets rnd)) ''P1'' = None"
      "int (length (players r1)) < RoomConfig.MinPlayers (config room_bets)
              \<and> gameState room_bets = StateBetting \<longrightarrow>
                gameState r1 = StatePaused \<and> timer r1 \<noteq> Some True"
    by blast
  from r1(4) b have rf: "map_of (players (cancelActiveBet room_bets ''P1'' player)) ''P1'' =
                  Some (player\<lparr>RoomPlayer.Balance := RoomPlayer.Balance player + Amount bet\<rparr>)"
    "currentRound r1 = Some (rnd\<lparr>Bets := AList.delete ''P1'' (Bets rnd)\<rparr>)"
    "map_of (AList.delete ''P1'' (Bets rnd)) ''P1'' = None"
    by blast+
  have "map fst (players r1) = [''P2'']"
    unfolding r1(2) using g(4) b(1,2)
    by (simp add: cancelActiveBet_def delete_keys update_keys)
  then have "length (players r1) = 1" by (metis length_map list.size(3,4) One_nat_def add_0)
  with r1(5) g have ps: "gameState r1 = StatePaused" "timer r1 \<noteq> Some True" by simp_all
  from c1 p r1(1,3) rf ps b(3) show ?thesis by auto
qed

subsection \<open>The end of the betting phase\<close>

lemma settleBets_maps:
  assumes "distinct (map fst bets)" "settleBets cfg c bets ps rs = Inr res"
  shows "map_of (fst res) pid =
           (case map_of bets pid of
              None \<Rightarrow> map_of ps pid
            | Some bet \<Rightarrow> map_option (settledPlayer cfg c bet) (map_of ps pid))
       \<and> map_of (snd res) pid =
           (case map_of bets pid of
              None \<Rightarrow> map_of rs pid
            | Some bet \<Rightarrow> map_option (settledResult cfg c pid bet) (map_of ps pid))"
  using assms
proof (induction bets arbitrary: ps rs)
  case Nil
  then show ?case by auto
next
  case (Cons b bets)
  obtain pid0 bet0 where b: "b = (pid0, bet0)" by (cases b)
  from Cons.prems b obtain p0 where p0: "map_of ps pid0 = Some p0"
    by (auto simp: settleBets_Cons simp del: settleBets.simps split: option.splits)
  from Cons.prems b p0 have
    s: "settleBets cfg c bets (AList.update pid0 (settledPlayer cfg c bet0 p0) ps)
            (AList.update pid0 (settledResult cfg c pid0 bet0 p0) rs) = Inr res"
    by (simp add: settleBets_Cons del: settleBets.simps)
  from Cons.prems(1) b have d: "distinct (map fst bets)" and n: "map_of bets pid0 = None"
    by (simp_all add: map_of_eq_None_iff)
  from Cons.IH [OF d s] n b p0 show ?case
    by (auto simp: update_conv' split: option.splits)
qed

lemma endBettingPhase_empty:
  assumes "gameState r = StateBetting" "currentRound r = Some rnd" "Bets rnd = []"
  shows "endBettingPhase r now seed rv =
     Inr (broadcastRoomUpdate
            ((logf (r\<lparr>gameState := StateRevealing\<rparr>) Info ''Betting phase ended'')
               \<lparr>gameState := StateWaiting, currentRound := None\<rparr>) now)"
  using assms by (simp add: endBettingPhase_def Let_def)

lemma endBettingPhase_settle:
  assumes "gameState r = StateBetting" "currentRound r = Some rnd" "Bets rnd \<noteq> []"
  shows "endBettingPhase r now seed rv =
     (case generateFinalResult (logf (r\<lparr>gameState := StateRevealing\<rparr>) Info ''Betting phase ended'')
             seed rv of
        Inl e \<Rightarrow> Inl e
      | Inr r3 \<Rightarrow> startResultPhase r3 now)"
  using assms by (simp add: endBettingPhase_def Let_def)

lemma generateFinalResult_ok:
  assumes "currentRound r = Some rnd" "fst ` set (Bets rnd) \<subseteq> fst ` set (players r)"
  shows "\<exists>res. settleBets (config r) (coinOf seed rv) (Bets rnd) (players r) (Results rnd) = Inr res
     \<and> generateFinalResult r seed rv =
         Inr (r\<lparr>players := fst res,
                currentRound := Some (rnd\<lparr>GameRound.FinalSeed := seed,
                                           GameRound.CoinResult := coinOf seed rv,
                                           Results := snd res\<rparr>)\<rparr>)"
proof -
  from settleBets_total [OF assms(2)] obtain res where
    "settleBets (config r) (coinOf seed rv) (Bets rnd) (players r) (Results rnd) = Inr res"
    by blast
  then show ?thesis using assms(1)
    by (simp add: generateFinalResult_def Let_def coinOf_def del: settleBets.simps)
qed

lemma startResultPhase_ok:
  assumes "currentRound r = Some rnd"
  shows "startResultPhase r now =
     Inr ((broadcastMessage (logf (r\<lparr>gameState := StateResult\<rparr>) Info ''Game result generated'')
             (resultMessage r rnd now))
          \<lparr>resultTimers := resultTimers r + 1\<rparr>)"
  using assms by (simp add: startResultPhase_def Let_def resultMessage_def)


lemma broadcastMessage_queue:
  "eventChan (broadcastMessage r m) =
     (if length (eventChan r) < eventChanCap then eventChan r @ [m] else eventChan r)"
  "logs (broadcastMessage r m) =
     (if length (eventChan r) < eventChanCap then logs r
      else logs r @ [(Warn, ''Event channel full, dropping message'')])"
  by (simp_all add: broadcastMessage_def)

lemma betting_timer_settles:
  assumes "room_inv r" "timer r = Some True" "currentRound r = Some rnd" "Bets rnd \<noteq> []"
  shows "\<exists>res r2 r1.
       settleBets (config r) (coinOf seed rv) (Bets rnd) (players r) (Results rnd) = Inr res
     \<and> r2 = (logf (r\<lparr>timer := Some False, gameState := StateRevealing\<rparr>) Info ''Betting phase ended'')
              \<lparr>players := fst res, currentRound := Some (settledRound r rnd seed rv res)\<rparr>
     \<and> generateFinalResult
          (logf (r\<lparr>timer := Some False, gameState := StateRevealing\<rparr>) Info ''Betting phase ended'')
          seed rv = Inr r2
     \<and> r1 = (broadcastMessage (logf (r2\<lparr>gameState := StateResult\<rparr>) Info ''Game result generated'')
                (resultMessage r2 (settledRound r rnd seed rv res) now))
             \<lparr>resultTimers := resultTimers r2 + 1\<rparr>
     \<and> startResultPhase r2 now = Inr r1
     \<and> apply_event r now (EvBettingTimer seed rv) = Some r1"
proof -
  let ?q = "r\<lparr>timer := Some False\<rparr>"
  let ?l = "logf (?q\<lparr>gameState := StateRevealing\<rparr>) Info ''Betting phase ended''"
  from assms(1,2) have g: "gameState ?q = StateBetting" by (simp add: room_inv_def)
  from assms(1,3) have sub: "fst ` set (Bets rnd) \<subseteq> fst ` set (players ?l)"
    by (simp add: room_inv_def bets_ok_def)
  have cur: "currentRound ?l = Some rnd" "currentRound ?q = Some rnd" using assms(3) by simp_all
  from generateFinalResult_ok [OF cur(1) sub, of seed rv] obtain res where
    res: "settleBets (config r) (coinOf seed rv) (Bets rnd) (players r) (Results rnd) = Inr res"
      "generateFinalResult ?l seed rv =
         Inr (?l\<lparr>players := fst res, currentRound := Some (settledRound r rnd seed rv res)\<rparr>)"
    by (auto simp: settledRound_def)
  let ?r2 = "?l\<lparr>players := fst res, currentRound := Some (settledRound r rnd seed rv res)\<rparr>"
  have c2: "currentRound ?r2 = Some (settledRound r rnd seed rv res)" by simp
  note sr = startResultPhase_ok [OF c2, of now]
  have "endBettingPhase ?q now seed rv = startResultPhase ?r2 now"
    using endBettingPhase_settle [OF g cur(2) assms(4), of now seed rv] res(2) by simp
  then have "apply_event r now (EvBettingTimer seed rv) =
      Some ((broadcastMessage (logf (?r2\<lparr>gameState := StateResult\<rparr>) Info ''Game result generated'')
                (resultMessage ?r2 (settledRound r rnd seed rv res) now))
             \<lparr>resultTimers := resultTimers ?r2 + 1\<rparr>)"
    using assms(2) sr by (simp add: crash_def)
  with res sr show ?thesis by blast
qed

text \<open>
  Claim C3. When the betting timer of a reachable room fires and the round has bets, the
  round is resolved against one outcome (\<open>coinOf seed randomValue\<close>, stored in the round).
  For every bet of the round: its player is in the roster; the player's balance grows by
  the amount times the configured payout ratio when the bet's side is the outcome, and is
  unchanged otherwise (the amount debited at placement is not returned); and the round
  keeps a result record for the player with the bet, won or lost, the payout and the
  resulting balance. Players without a bet are unchanged. The witness is the scenario of
  the specification: payout ratio 2, balances 100, a bet of 10 on heads and one of 20 on
  tails, outcome heads: the balances become 110 and 80.
\<close>

theorem round_resolution:
  assumes "reachable r" "timer r = Some True" "currentRound r = Some rnd" "Bets rnd \<noteq> []"
  shows "\<exists>r1 rnd1. apply_event r now (EvBettingTimer seed rv) = Some r1
     \<and> currentRound r1 = Some rnd1
     \<and> GameRound.CoinResult rnd1 = coinOf seed rv \<and> Bets rnd1 = Bets rnd
     \<and> (\<forall>pid bet. map_of (Bets rnd) pid = Some bet \<longrightarrow>
          (\<exists>player player1.
               map_of (players r) pid = Some player
             \<and> map_of (players r1) pid = Some player1
             \<and> RoomPlayer.Balance player1 =
                 RoomPlayer.Balance player
                 + (if Choice bet = coinOf seed rv then Amount bet * PayoutRatio (config r) else 0)
             \<and> map_of (Results rnd1) pid =
                 Some \<lparr>PlayerResult.PlayerID = pid,
                       PlayerResult.PlayerName = RoomPlayer.Name player,
                       Bet = Some bet, Won = (Choice bet = coinOf seed rv),
                       Payout = (if Choice bet = coinOf seed rv
                                 then Amount bet * PayoutRatio (config r) else 0),
                       NewBalance = RoomPlayer.Balance player1\<rparr>))
     \<and> (\<forall>pid. map_of (Bets rnd) pid = None \<longrightarrow> map_of (players r1) pid = map_of (players r) pid)"
proof -
  from reachable_room_inv [OF assms(1)] have i: "room_inv r" .
  from i assms(3) have d: "distinct (map fst (Bets rnd))"
    and sub: "fst ` set (Bets rnd) \<subseteq> fst ` set (players r)"
    by (simp_all add: room_inv_def bets_ok_def)
  from betting_timer_settles [OF i assms(2,3,4), of seed rv now] obtain res r2 r1 where
    f: "settleBets (config r) (coinOf seed rv) (Bets rnd) (players r) (Results rnd) = Inr res"
      "r2 = (logf (r\<lparr>timer := Some False, gameState := StateRevealing\<rparr>) Info ''Betting phase ended'')
              \<lparr>players := fst res, currentRound := Some (settledRound r rnd seed rv res)\<rparr>"
      "r1 = (broadcastMessage (logf (r2\<lparr>gameState := StateResult\<rparr>) Info ''Game result generated'')
                (resultMessage r2 (settledRound r rnd seed rv res) now))
             \<lparr>resultTimers := resultTimers r2 + 1\<rparr>"
      "apply_event r now (EvBettingTimer seed rv) = Some r1"
    by blast
  have p1: "players r1 = fst res" and c1: "currentRound r1 = Some (settledRound r rnd seed rv res)"
    by (simp_all add: f(2,3))
  note m = settleBets_maps [OF d f(1)]
  have a: "\<exists>player player1.
               map_of (players r) pid = Some player
             \<and> map_of (players r1) pid = Some player1
             \<and> RoomPlayer.Balance player1 =
                 RoomPlayer.Balance player
                 + (if Choice bet = coinOf seed rv then Amount bet * PayoutRatio (config r) else 0)
             \<and> map_of (Results (settledRound r rnd seed rv res)) pid =
                 Some \<lparr>PlayerResult.PlayerID = pid,
                       PlayerResult.PlayerName = RoomPlayer.Name player,
                       Bet = Some bet, Won = (Choice bet = coinOf seed rv),
                       Payout = (if Choice bet = coinOf seed rv
                                 then Amount bet * PayoutRatio (config r) else 0),
                       NewBalance = RoomPlayer.Balance player1\<rparr>"
    if b: "map_of (Bets rnd) pid = Some bet" for pid bet
  proof -
    from b have "pid \<in> fst ` set (Bets rnd)" by (metis map_of_eq_None_iff option.distinct(1))
    with sub have "pid \<in> fst ` set (players r)" by blast
    then obtain player where pl: "map_of (players r) pid = Some player"
      by (metis map_of_eq_None_iff not_Some_eq)
    from m [of pid] b pl show ?thesis
      by (simp add: p1 settledRound_def settledPlayer_def settledResult_def)
  qed
  have u: "map_of (players r1) pid = map_of (players r) pid" if "map_of (Bets rnd) pid = None" for pid
    using m [of pid] that by (simp add: p1)
  show ?thesis
    using f(4) c1 a u
    by (intro exI [of _ r1] exI [of _ "settledRound r rnd seed rv res"])
       (simp add: settledRound_def)
qed


theorem round_resolution_witness:
  "\<exists>r1 p1 p2. apply_event room_bets 6 (EvBettingTimer ''ab'' 4) = Some r1
     \<and> PayoutRatio (config room_bets) = 2 \<and> coinOf ''ab'' 4 = Heads
     \<and> map_of (players r1) ''P1'' = Some p1 \<and> RoomPlayer.Balance p1 = 110
     \<and> map_of (players r1) ''P2'' = Some p2 \<and> RoomPlayer.Balance p2 = 80"
proof -
  have t: "timer room_bets = Some True" "PayoutRatio (config room_bets) = 2" by code_simp+
  have co: "coinOf ''ab'' 4 = Heads" by (simp add: coinOf_def FlipCoin_def)
  have "map_option (\<lambda>rnd. Bets rnd = []) (currentRound room_bets) = Some False" by code_simp
  then obtain rnd where rnd: "currentRound room_bets = Some rnd" "Bets rnd \<noteq> []" by auto
  have "map_option (\<lambda>rnd. map_option (\<lambda>b. (Amount b, Choice b = Heads)) (map_of (Bets rnd) ''P1''))
          (currentRound room_bets) = Some (Some (10, True))"
    "map_option (\<lambda>rnd. map_option (\<lambda>b. (Amount b, Choice b = Heads)) (map_of (Bets rnd) ''P2''))
          (currentRound room_bets) = Some (Some (20, False))"
    by code_simp+
  with rnd(1) obtain b1 b2 where
    b: "map_of (Bets rnd) ''P1'' = Some b1" "Amount b1 = 10" "Choice b1 = Heads"
       "map_of (Bets rnd) ''P2'' = Some b2" "Amount b2 = 20" "Choice b2 \<noteq> Heads"
    by auto
  have "map_option RoomPlayer.Balance (map_of (players room_bets) ''P1'') = Some 90"
    "map_option RoomPlayer.Balance (map_of (players room_bets) ''P2'') = Some 80"
    by code_simp+
  then obtain q1 q2 where
    q: "map_of (players room_bets) ''P1'' = Some q1" "RoomPlayer.Balance q1 = 90"
       "map_of (players room_bets) ''P2'' = Some q2" "RoomPlayer.Balance q2 = 80"
    by auto
  from round_resolution [OF reachable_room_bets t(1) rnd, of 6 "''ab''" 4] obtain r1 where
    r1: "apply_event room_bets 6 (EvBettingTimer ''ab'' 4) = Some r1"
      "\<forall>pid bet. map_of (Bets rnd) pid = Some bet \<longrightarrow>
          (\<exists>player player1.
               map_of (players room_bets) pid = Some player
             \<and> map_of (players r1) pid = Some player1
             \<and> RoomPlayer.Balance player1 =
                 RoomPlayer.Balance player
                 + (if Choice bet = coinOf ''ab'' 4 then Amount bet * PayoutRatio (config room_bets) else 0))"
    by blast
  from r1(2) b(1) obtain p1 where
    "map_of (players r1) ''P1'' = Some p1"
    "RoomPlayer.Balance p1 = RoomPlayer.Balance q1
        + (if Choice b1 = coinOf ''ab'' 4 then Amount b1 * PayoutRatio (config room_bets) else 0)"
    using q(1) by fastforce
  then have p1: "map_of (players r1) ''P1'' = Some p1" "RoomPlayer.Balance p1 = 110"
    using b(2,3) q(2) t(2) co by simp_all
  from r1(2) b(4) obtain p2 where
    "map_of (players r1) ''P2'' = Some p2"
    "RoomPlayer.Balance p2 = RoomPlayer.Balance q2
        + (if Choice b2 = coinOf ''ab'' 4 then Amount b2 * PayoutRatio (config room_bets) else 0)"
    using q(3) by fastforce
  then have p2: "map_of (players r1) ''P2'' = Some p2" "RoomPlayer.Balance p2 = 80"
    using b(5,6) q(4) t(2) co by simp_all
  from r1(1) t(2) co p1 p2 show ?thesis by blast
qed

lemma broadcastRoomUpdate_queue:
  "eventChan (broadcastRoomUpdate r now) =
     (if length (eventChan r) < eventChanCap then eventChan r @ [roomUpdateMessage r now]
      else eventChan r)"
  by (simp add: broadcastRoomUpdate_def Let_def roomUpdateMessage_def broadcastMessage_queue)

lemma message_types [simp]:
  "Message.Type (roomUpdateMessage r now) = MsgRoomUpdate"
  "Message.Type (resultMessage r rnd now) = MsgGameResult"
  "MsgRoomUpdate \<noteq> MsgGameResult"
  by (simp_all add: roomUpdateMessage_def resultMessage_def NewMessage_def
      MsgRoomUpdate_def MsgGameResult_def)

lemma resultTimerFired_spawned:
  "spawned (resultTimerFired r now) =
     (if RoomConfig.MinPlayers (config r) \<le> int (length (players r))
      then spawned r @ [TaskNextRound] else spawned r)"
  by (simp add: resultTimerFired_def Let_def)

lemma run_next_round:
  assumes "gameState r = StateWaiting" "RoomConfig.MinPlayers (config r) \<le> int (length (players r))"
    "TaskNextRound \<in> set (spawned r)"
  shows "\<exists>r1. apply_event r now (EvRunTask TaskNextRound) = Some r1 \<and> gameState r1 = StateBetting"
proof -
  let ?q = "r\<lparr>spawned := remove1 TaskNextRound (spawned r)\<rparr>"
  have "RoomConfig.MinPlayers (config ?q) \<le> int (length (players ?q))" "gameState ?q = StateWaiting"
    using assms by simp_all
  from StartGame_ok [OF this, of now] assms(3) show ?thesis by auto
qed

text \<open>
  Claim C4. The betting timer of a reachable room is pending only in the betting phase,
  where a round exists. When it fires:

  \<^item> with no bet in the round, the round is discarded and the phase is waiting; the roster
    (with every balance) is unchanged; no result timer is armed and no goroutine started;
    the only event sent, if any, is a room update, not a result;
  \<^item> with bets, the outcome is generated in the revealing phase
    (\<^verbatim>\<open>generateFinalResult\<close> runs on the room with phase revealing), then
    \<^verbatim>\<open>startResultPhase\<close> sets the phase to result and hands a result event to the
    queue of the room: it is queued when the queue has room, and dropped with a warning
    when the queue is full (the policy of claim C9). One result timer is armed. Its firing
    clears the round and sets the phase to waiting; it cannot fire a second time; and if
    the roster has at least the minimum number of players it starts the goroutine of the
    next round (which sleeps two seconds and calls \<^verbatim>\<open>StartGame\<close>), whose run starts
    the betting phase again.
\<close>

theorem betting_timer_expiry:
  assumes "reachable r" "timer r = Some True"
  shows "gameState r = StateBetting
     \<and> (\<exists>rnd. currentRound r = Some rnd
        \<and> (Bets rnd = [] \<longrightarrow>
             (\<exists>r1. apply_event r now (EvBettingTimer seed rv) = Some r1
                \<and> gameState r1 = StateWaiting \<and> currentRound r1 = None
                \<and> players r1 = players r
                \<and> resultTimers r1 = 0 \<and> spawned r1 = spawned r
                \<and> (eventChan r1 = eventChan r
                    \<or> (\<exists>m. eventChan r1 = eventChan r @ [m] \<and> Message.Type m = MsgRoomUpdate
                          \<and> Message.Type m \<noteq> MsgGameResult))))
        \<and> (Bets rnd \<noteq> [] \<longrightarrow>
             (\<exists>r2 r1 rnd1.
                  generateFinalResult
                    (logf (r\<lparr>timer := Some False, gameState := StateRevealing\<rparr>) Info
                       ''Betting phase ended'') seed rv = Inr r2
                \<and> gameState r2 = StateRevealing
                \<and> startResultPhase r2 now = Inr r1
                \<and> apply_event r now (EvBettingTimer seed rv) = Some r1
                \<and> gameState r1 = StateResult
                \<and> currentRound r1 = Some rnd1 \<and> GameRound.CoinResult rnd1 = coinOf seed rv
                \<and> Message.Type (resultMessage r2 rnd1 now) = MsgGameResult
                \<and> (length (eventChan r) < eventChanCap \<longrightarrow>
                      eventChan r1 = eventChan r @ [resultMessage r2 rnd1 now])
                \<and> (\<not> length (eventChan r) < eventChanCap \<longrightarrow>
                      eventChan r1 = eventChan r
                    \<and> last (logs r1) = (Warn, ''Event channel full, dropping message''))
                \<and> resultTimers r1 = 1
                \<and> (\<forall>now2. \<exists>r3.
                       apply_event r1 now2 EvResultTimer = Some r3
                     \<and> gameState r3 = StateWaiting \<and> currentRound r3 = None
                     \<and> resultTimers r3 = 0
                     \<and> (\<forall>now3. apply_event r3 now3 EvResultTimer = None)
                     \<and> (RoomConfig.MinPlayers (config r1) \<le> int (length (players r1)) \<longrightarrow>
                           spawned r3 = spawned r1 @ [TaskNextRound]
                         \<and> (\<forall>now3. \<exists>r4. apply_event r3 now3 (EvRunTask TaskNextRound) = Some r4
                                       \<and> gameState r4 = StateBetting))
                     \<and> (\<not> RoomConfig.MinPlayers (config r1) \<le> int (length (players r1)) \<longrightarrow>
                           spawned r3 = spawned r1)))))"
proof -
  from reachable_room_inv [OF assms(1)] have i: "room_inv r" .
  from i assms(2) have g: "gameState r = StateBetting" and rt: "resultTimers r = 0"
    by (simp_all add: room_inv_def)
  with i obtain rnd where rnd: "currentRound r = Some rnd" by (auto simp: room_inv_def)
  have e: "\<exists>r1. apply_event r now (EvBettingTimer seed rv) = Some r1
                \<and> gameState r1 = StateWaiting \<and> currentRound r1 = None
                \<and> players r1 = players r
                \<and> resultTimers r1 = 0 \<and> spawned r1 = spawned r
                \<and> (eventChan r1 = eventChan r
                    \<or> (\<exists>m. eventChan r1 = eventChan r @ [m] \<and> Message.Type m = MsgRoomUpdate
                          \<and> Message.Type m \<noteq> MsgGameResult))"
    if em: "Bets rnd = []"
  proof -
    let ?q = "r\<lparr>timer := Some False\<rparr>"
    have "gameState ?q = StateBetting" "currentRound ?q = Some rnd" using g rnd by simp_all
    from endBettingPhase_empty [OF this em, of now seed rv] assms(2) rt
    show ?thesis
      by (simp add: crash_def broadcastRoomUpdate_queue)
  qed
  have s: "\<exists>r2 r1 rnd1.
                  generateFinalResult
                    (logf (r\<lparr>timer := Some False, gameState := StateRevealing\<rparr>) Info
                       ''Betting phase ended'') seed rv = Inr r2
                \<and> gameState r2 = StateRevealing
                \<and> startResultPhase r2 now = Inr r1
                \<and> apply_event r now (EvBettingTimer seed rv) = Some r1
                \<and> gameState r1 = StateResult
                \<and> currentRound r1 = Some rnd1 \<and> GameRound.CoinResult rnd1 = coinOf seed rv
                \<and> Message.Type (resultMessage r2 rnd1 now) = MsgGameResult
                \<and> (length (eventChan r) < eventChanCap \<longrightarrow>
                      eventChan r1 = eventChan r @ [resultMessage r2 rnd1 now])
                \<and> (\<not> length (eventChan r) < eventChanCap \<longrightarrow>
                      eventChan r1 = eventChan r
                    \<and> last (logs r1) = (Warn, ''Event channel full, dropping message''))
                \<and> resultTimers r1 = 1
                \<and> (\<forall>now2. \<exists>r3.
                       apply_event r1 now2 EvResultTimer = Some r3
                     \<and> gameState r3 = StateWaiting \<and> currentRound r3 = None
                     \<and> resultTimers r3 = 0
                     \<and> (\<forall>now3. apply_event r3 now3 EvResultTimer = None)
                     \<and> (RoomConfig.MinPlayers (config r1) \<le> int (length (players r1)) \<longrightarrow>
                           spawned r3 = spawned r1 @ [TaskNextRound]
                         \<and> (\<forall>now3. \<exists>r4. apply_event r3 now3 (EvRunTask TaskNextRound) = Some r4
                                       \<and> gameState r4 = StateBetting))
                     \<and> (\<not> RoomConfig.MinPlayers (config r1) \<le> int (length (players r1)) \<longrightarrow>
                           spawned r3 = spawned r1))"
    if ne: "Bets rnd \<noteq> []"
  proof -
    from betting_timer_settles [OF i assms(2) rnd ne, of seed rv now] obtain res r2 r1 where
      f: "r2 = (logf (r\<lparr>timer := Some False, gameState := StateRevealing\<rparr>) Info ''Betting phase ended'')
              \<lparr>players := fst res, currentRound := Some (settledRound r rnd seed rv res)\<rparr>"
        "generateFinalResult
          (logf (r\<lparr>timer := Some False, gameState := StateRevealing\<rparr>) Info ''Betting phase ended'')
          seed rv = Inr r2"
        "r1 = (broadcastMessage (logf (r2\<lparr>gameState := StateResult\<rparr>) Info ''Game result generated'')
                (resultMessage r2 (settledRound r rnd seed rv res) now))
             \<lparr>resultTimers := resultTimers r2 + 1\<rparr>"
        "startResultPhase r2 now = Inr r1"
        "apply_event r now (EvBettingTimer seed rv) = Some r1"
      by blast
    let ?rnd1 = "settledRound r rnd seed rv res"
    have a: "gameState r2 = StateRevealing" "gameState r1 = StateResult"
      "currentRound r1 = Some ?rnd1" "GameRound.CoinResult ?rnd1 = coinOf seed rv"
      "resultTimers r1 = 1" "eventChan r2 = eventChan r"
      using rt by (simp_all add: f(1,3) settledRound_def)
    have q: "length (eventChan r) < eventChanCap \<longrightarrow>
               eventChan r1 = eventChan r @ [resultMessage r2 ?rnd1 now]"
      "\<not> length (eventChan r) < eventChanCap \<longrightarrow>
               eventChan r1 = eventChan r
             \<and> last (logs r1) = (Warn, ''Event channel full, dropping message'')"
      using a(6) by (simp_all add: f(3) broadcastMessage_queue)
    have t: "\<exists>r3. apply_event r1 now2 EvResultTimer = Some r3
                     \<and> gameState r3 = StateWaiting \<and> currentRound r3 = None
                     \<and> resultTimers r3 = 0
                     \<and> (\<forall>now3. apply_event r3 now3 EvResultTimer = None)
                     \<and> (RoomConfig.MinPlayers (config r1) \<le> int (length (players r1)) \<longrightarrow>
                           spawned r3 = spawned r1 @ [TaskNextRound]
                         \<and> (\<forall>now3. \<exists>r4. apply_event r3 now3 (EvRunTask TaskNextRound) = Some r4
                                       \<and> gameState r4 = StateBetting))
                     \<and> (\<not> RoomConfig.MinPlayers (config r1) \<le> int (length (players r1)) \<longrightarrow>
                           spawned r3 = spawned r1)" for now2
    proof -
      define r3 where "r3 = resultTimerFired (r1\<lparr>resultTimers := resultTimers r1 - 1\<rparr>) now2"
      have b: "apply_event r1 now2 EvResultTimer = Some r3"
        using a(5) by (simp add: r3_def)
      have c: "gameState r3 = StateWaiting" "currentRound r3 = None" "resultTimers r3 = 0"
        "config r3 = config r1" "players r3 = players r1"
        using a(5) by (simp_all add: r3_def)
      have d: "spawned r3 =
         (if RoomConfig.MinPlayers (config r1) \<le> int (length (players r1))
          then spawned r1 @ [TaskNextRound] else spawned r1)"
        by (simp add: r3_def resultTimerFired_spawned)
      have n: "\<forall>now3. \<exists>r4. apply_event r3 now3 (EvRunTask TaskNextRound) = Some r4
                                       \<and> gameState r4 = StateBetting"
        if h: "RoomConfig.MinPlayers (config r1) \<le> int (length (players r1))"
      proof
        fix now3
        have "RoomConfig.MinPlayers (config r3) \<le> int (length (players r3))"
          "TaskNextRound \<in> set (spawned r3)"
          using h c(4,5) d by simp_all
        from run_next_round [OF c(1) this, of now3]
        show "\<exists>r4. apply_event r3 now3 (EvRunTask TaskNextRound) = Some r4
                                       \<and> gameState r4 = StateBetting" .
      qed
      have z: "\<forall>now3. apply_event r3 now3 EvResultTimer = None" using c(3) by simp
      from b c(1,2,3) z d n show ?thesis by (intro exI [of _ r3]) simp
    qed
    from f(2,4,5) a(1-5) q t show ?thesis
      by (intro exI [of _ r2] exI [of _ r1] exI [of _ ?rnd1]) (simp del: apply_event.simps)
  qed
  from g rnd e s show ?thesis by simp
qed


theorem betting_timer_expiry_witness:
  "(\<exists>r1. apply_event room_betting 9 (EvBettingTimer ''ab'' 4) = Some r1
       \<and> gameState r1 = StateWaiting \<and> currentRound r1 = None
       \<and> players r1 = players room_betting)
   \<and> (\<exists>r1 r3. apply_event room_bets 9 (EvBettingTimer ''ab'' 4) = Some r1
       \<and> gameState r1 = StateResult \<and> resultTimers r1 = 1
       \<and> apply_event r1 20 EvResultTimer = Some r3
       \<and> gameState r3 = StateWaiting \<and> currentRound r3 = None)"
proof -
  have t: "timer room_betting = Some True" "timer room_bets = Some True" by code_simp+
  have e: "map_option (\<lambda>rnd. Bets rnd = []) (currentRound room_betting) = Some True"
    "map_option (\<lambda>rnd. Bets rnd = []) (currentRound room_bets) = Some False"
    by code_simp+
  from betting_timer_expiry [OF reachable_room_betting t(1), of 9 "''ab''" 4] e(1)
  have c1: "\<exists>r1. apply_event room_betting 9 (EvBettingTimer ''ab'' 4) = Some r1
       \<and> gameState r1 = StateWaiting \<and> currentRound r1 = None
       \<and> players r1 = players room_betting"
    by (auto simp del: apply_event.simps)
  from betting_timer_expiry [OF reachable_room_bets t(2), of 9 "''ab''" 4] e(2)
  obtain r1 where r1: "apply_event room_bets 9 (EvBettingTimer ''ab'' 4) = Some r1"
    "gameState r1 = StateResult" "resultTimers r1 = 1"
    "\<forall>now2. \<exists>r3. apply_event r1 now2 EvResultTimer = Some r3
                     \<and> gameState r3 = StateWaiting \<and> currentRound r3 = None"
    by (clarsimp simp del: apply_event.simps) blast
  from r1(4) obtain r3 where "apply_event r1 20 EvResultTimer = Some r3"
    "gameState r3 = StateWaiting" "currentRound r3 = None"
    by blast
  with r1(1,2,3) have c2: "\<exists>r1 r3. apply_event room_bets 9 (EvBettingTimer ''ab'' 4) = Some r1
       \<and> gameState r1 = StateResult \<and> resultTimers r1 = 1
       \<and> apply_event r1 20 EvResultTimer = Some r3
       \<and> gameState r3 = StateWaiting \<and> currentRound r3 = None"
    by blast
  from c1 c2 show ?thesis by blast
qed

section \<open>Properties of the envelope\<close>








section \<open>Properties of the relay\<close>





section \<open>Properties of the network client\<close>

lemma clog_fields [simp]:
  "conn (clog c l m) = conn c" "currentRoom (clog c l m) = currentRoom c"
  "errorChan (clog c l m) = errorChan c" "connected (clog c l m) = connected c"
  "reconnectDelay (clog c l m) = reconnectDelay c" "maxReconnects (clog c l m) = maxReconnects c"
  "reconnectCount (clog c l m) = reconnectCount c" "actions (clog c l m) = actions c"
  "dials (clog c l m) = dials c" "writes (clog c l m) = writes c"
  by (simp_all add: clog_def)

lemma act_fields [simp]:
  "conn (act c a) = conn c" "currentRoom (act c a) = currentRoom c"
  "errorChan (act c a) = errorChan c" "connected (act c a) = connected c"
  "reconnectDelay (act c a) = reconnectDelay c" "maxReconnects (act c a) = maxReconnects c"
  "reconnectCount (act c a) = reconnectCount c" "actions (act c a) = actions c @ [a]"
  "dials (act c a) = dials c" "writes (act c a) = writes c"
  by (simp_all add: act_def)

lemma pushError_fields [simp]:
  "conn (pushError c e) = conn c" "currentRoom (pushError c e) = currentRoom c"
  "connected (pushError c e) = connected c"
  "reconnectDelay (pushError c e) = reconnectDelay c" "maxReconnects (pushError c e) = maxReconnects c"
  "reconnectCount (pushError c e) = reconnectCount c" "actions (pushError c e) = actions c"
  "dials (pushError c e) = dials c" "writes (pushError c e) = writes c"
  "errorChan (pushError c e) =
     (if length (errorChan c) < errorChanCap then errorChan c @ [e] else errorChan c)"
  by (simp_all add: pushError_def)

lemma sleeps_append [simp]: "sleeps (xs @ ys) = sleeps xs + sleeps ys"
  by (induction xs rule: sleeps.induct) auto

lemma delayed_mono: "delayed False xs \<Longrightarrow> delayed p xs"
  by (cases xs rule: sleeps.cases) (auto elim: delayed.elims)

lemma delayed_append: "delayed p xs \<Longrightarrow> delayed False ys \<Longrightarrow> delayed p (xs @ ys)"
  by (induction p xs rule: delayed.induct) (auto intro: delayed_mono)

lemma Connect_actions:
  "\<exists>new. actions (fst (Connect net c)) = actions c @ new \<and> delayed True new \<and> sleeps new = 0"
  by (auto simp: Connect_def Let_def)

lemma JoinRoom_actions:
  "\<exists>new. actions (fst (JoinRoom lay net now c rid bal)) = actions c @ new \<and> delayed False new
      \<and> sleeps new = 0"
  by (auto simp: JoinRoom_def sendMessage_def Let_def split: sum.splits option.splits)

lemma JoinRoom_count:
  "reconnectCount (fst (JoinRoom lay net now c rid bal)) = reconnectCount c"
  "maxReconnects (fst (JoinRoom lay net now c rid bal)) = maxReconnects c"
  by (auto simp: JoinRoom_def sendMessage_def Let_def split: sum.splits option.splits)

lemma Connect_ok_count:
  "snd (Connect net c) = None \<Longrightarrow>
     reconnectCount (fst (Connect net c)) = (if connected c then reconnectCount c else 0)"
  "maxReconnects (fst (Connect net c)) = maxReconnects c"
  by (auto simp: Connect_def Let_def split: if_splits)


lemma attemptReconnect_unfold:
  "attemptReconnect lay net now c =
     (let c3 = act (clog (c\<lparr>reconnectCount := reconnectCount c + 1\<rparr>) Info ''Attempting to reconnect'')
                 (ActSleep (reconnectDelay c));
          res = Connect net c3
      in if snd res \<noteq> None
         then
           let c4 = clog (fst res) Error ''Reconnection failed''
           in if reconnectCount c4 < maxReconnects c4
              then attemptReconnect lay net now c4
              else pushError c4 ErrMaxReconnects
         else
           let c4 = fst res
           in if currentRoom c4 \<noteq> []
              then
                let joined = JoinRoom lay net now c4 (currentRoom c4) 1000
                in (case snd joined of
                      Some e \<Rightarrow> clog (fst joined) Error ''Failed to rejoin room after reconnect''
                    | None \<Rightarrow> fst joined)
              else c4)"
  by (subst attemptReconnect.simps) (simp add: Let_def)

lemma attemptReconnect_bound:
  assumes "reconnectCount c < maxReconnects c"
  shows "\<exists>new. actions (attemptReconnect lay net now c) = actions c @ new
     \<and> delayed False new \<and> 1 \<le> sleeps new
     \<and> int (sleeps new) \<le> maxReconnects c - reconnectCount c
     \<and> maxReconnects (attemptReconnect lay net now c) = maxReconnects c
     \<and> (0 \<le> reconnectCount c \<longrightarrow>
           0 \<le> reconnectCount (attemptReconnect lay net now c)
         \<and> reconnectCount (attemptReconnect lay net now c) \<le> maxReconnects c)"
  using assms
proof (induction "nat (maxReconnects c - reconnectCount c)" arbitrary: c rule: less_induct)
  case less
  define c3 where "c3 = act (clog (c\<lparr>reconnectCount := reconnectCount c + 1\<rparr>) Info
      ''Attempting to reconnect'') (ActSleep (reconnectDelay c))"
  define res where "res = Connect net c3"
  have a3: "actions c3 = actions c @ [ActSleep (reconnectDelay c)]"
    "reconnectCount c3 = reconnectCount c + 1" "maxReconnects c3 = maxReconnects c"
    by (simp_all add: c3_def)
  from Connect_actions [of net c3] obtain n1 where
    n1: "actions (fst res) = actions c3 @ n1" "delayed True n1" "sleeps n1 = 0"
    by (auto simp: res_def)
  have m: "maxReconnects (fst res) = maxReconnects c"
    by (simp add: res_def Connect_ok_count(2) a3)
  show ?case
  proof (cases "snd res \<noteq> None")
    case True
    from Connect_failed [of net c3] True have
      k: "reconnectCount (fst res) = reconnectCount c + 1"
      by (simp add: res_def a3)
    define c4 where "c4 = clog (fst res) Error ''Reconnection failed''"
    have a4: "actions c4 = actions c @ ActSleep (reconnectDelay c) # n1"
      "reconnectCount c4 = reconnectCount c + 1" "maxReconnects c4 = maxReconnects c"
      by (simp_all add: c4_def n1 a3 k m)
    show ?thesis
    proof (cases "reconnectCount c4 < maxReconnects c4")
      case lt: True
      have u: "attemptReconnect lay net now c = attemptReconnect lay net now c4"
        using True lt
        by (subst attemptReconnect_unfold) (simp add: Let_def c3_def [symmetric] res_def [symmetric] c4_def [symmetric])
      have "nat (maxReconnects c4 - reconnectCount c4) < nat (maxReconnects c - reconnectCount c)"
        using less.prems a4 by simp
      from less.hyps [OF this lt] obtain n2 where
        n2: "actions (attemptReconnect lay net now c4) = actions c4 @ n2" "delayed False n2"
          "int (sleeps n2) \<le> maxReconnects c4 - reconnectCount c4"
          "maxReconnects (attemptReconnect lay net now c4) = maxReconnects c4"
          "0 \<le> reconnectCount c4 \<longrightarrow>
           0 \<le> reconnectCount (attemptReconnect lay net now c4)
         \<and> reconnectCount (attemptReconnect lay net now c4) \<le> maxReconnects c4"
        by blast
      have "delayed False (ActSleep (reconnectDelay c) # n1 @ n2)"
        using n1(2) n2(2) by (simp add: delayed_append)
      then show ?thesis
        using u n2 a4 n1(3)
        by (intro exI [of _ "ActSleep (reconnectDelay c) # n1 @ n2"]) simp
    next
      case ge: False
      have u: "attemptReconnect lay net now c = pushError c4 ErrMaxReconnects"
        using True ge
        by (subst attemptReconnect_unfold) (simp add: Let_def c3_def [symmetric] res_def [symmetric] c4_def [symmetric])
      show ?thesis
        using u a4 n1 less.prems
        by (intro exI [of _ "ActSleep (reconnectDelay c) # n1"]) simp
    qed
  next
    case False
    define c4 where "c4 = fst res"
    have a4: "actions c4 = actions c @ ActSleep (reconnectDelay c) # n1"
      "maxReconnects c4 = maxReconnects c"
      by (simp_all add: c4_def n1 a3 m)
    have k4: "reconnectCount c4 = (if connected c3 then reconnectCount c + 1 else 0)"
      using False Connect_ok_count(1) [of net c3] by (simp add: c4_def res_def a3)
    from JoinRoom_actions [of lay net now c4 "currentRoom c4" 1000] obtain n2 where
      n2: "actions (fst (JoinRoom lay net now c4 (currentRoom c4) 1000)) = actions c4 @ n2"
        "delayed False n2" "sleeps n2 = 0"
      by blast
    have d2: "delayed False (ActSleep (reconnectDelay c) # n1 @ n2)"
      using n1(2) n2(2) by (simp add: delayed_append)
    have d1: "delayed False (ActSleep (reconnectDelay c) # n1)"
      using n1(2) by simp
    have u: "attemptReconnect lay net now c =
        (if currentRoom c4 \<noteq> []
         then (case snd (JoinRoom lay net now c4 (currentRoom c4) 1000) of
                 Some e \<Rightarrow> clog (fst (JoinRoom lay net now c4 (currentRoom c4) 1000)) Error
                             ''Failed to rejoin room after reconnect''
               | None \<Rightarrow> fst (JoinRoom lay net now c4 (currentRoom c4) 1000))
         else c4)"
      using False
      by (subst attemptReconnect_unfold) (simp add: Let_def c3_def [symmetric] res_def [symmetric] c4_def [symmetric])
    show ?thesis
    proof (cases "currentRoom c4 \<noteq> []")
      case True
      then show ?thesis
        using u n2 a4 n1(3) d2 less.prems k4 JoinRoom_count [of lay net now c4 "currentRoom c4" 1000]
        by (intro exI [of _ "ActSleep (reconnectDelay c) # n1 @ n2"])
           (simp split: option.splits)
    next
      case False
      then show ?thesis
        using u a4 n1(3) d1 less.prems k4
        by (intro exI [of _ "ActSleep (reconnectDelay c) # n1"]) simp
    qed
  qed
qed


lemma Connect_down:
  assumes "\<not> connected c" "\<not> (urlOk net \<and> dialOk net (dials c))"
  shows "snd (Connect net c) \<noteq> None"
    "actions (fst (Connect net c)) = actions c @ (if urlOk net then [ActDial False] else [])"
    "connected (fst (Connect net c)) = connected c" "errorChan (fst (Connect net c)) = errorChan c"
    "reconnectCount (fst (Connect net c)) = reconnectCount c"
    "reconnectDelay (fst (Connect net c)) = reconnectDelay c"
    "conn (fst (Connect net c)) = conn c"
  using assms by (auto simp: Connect_def Let_def)

lemma attemptReconnect_all_fail:
  assumes "\<not> connected c" "reconnectCount c < maxReconnects c"
    and "\<And>n. \<not> (urlOk net \<and> dialOk net n)"
  shows "actions (attemptReconnect lay net now c) =
           actions c @ concat (replicate (nat (maxReconnects c - reconnectCount c))
                                 (failedAttempt net (reconnectDelay c)))
     \<and> reconnectCount (attemptReconnect lay net now c) = maxReconnects c
     \<and> errorChan (attemptReconnect lay net now c) =
          (if length (errorChan c) < errorChanCap then errorChan c @ [ErrMaxReconnects]
           else errorChan c)
     \<and> \<not> connected (attemptReconnect lay net now c)
     \<and> conn (attemptReconnect lay net now c) = conn c"
  using assms(1,2)
proof (induction "nat (maxReconnects c - reconnectCount c)" arbitrary: c rule: less_induct)
  case less
  define c3 where "c3 = act (clog (c\<lparr>reconnectCount := reconnectCount c + 1\<rparr>) Info
      ''Attempting to reconnect'') (ActSleep (reconnectDelay c))"
  define res where "res = Connect net c3"
  define c4 where "c4 = clog (fst res) Error ''Reconnection failed''"
  have n3: "\<not> connected c3" using less.prems(1) by (simp add: c3_def)
  note cd = Connect_down [OF n3 assms(3) [of "dials c3"]]
  have f: "snd res \<noteq> None" by (simp add: res_def cd(1))
  have a4: "actions c4 = actions c @ failedAttempt net (reconnectDelay c)"
    "reconnectCount c4 = reconnectCount c + 1" "maxReconnects c4 = maxReconnects c"
    "\<not> connected c4" "errorChan c4 = errorChan c" "reconnectDelay c4 = reconnectDelay c"
    "conn c4 = conn c"
  proof -
    have r: "actions (fst res) = actions c3 @ (if urlOk net then [ActDial False] else [])"
      "connected (fst res) = connected c3" "errorChan (fst res) = errorChan c3"
      "reconnectCount (fst res) = reconnectCount c3" "reconnectDelay (fst res) = reconnectDelay c3"
      "maxReconnects (fst res) = maxReconnects c3" "conn (fst res) = conn c3"
      unfolding res_def by (rule cd Connect_ok_count(2))+
    have q: "actions c3 = actions c @ [ActSleep (reconnectDelay c)]" "connected c3 = connected c"
      "errorChan c3 = errorChan c" "reconnectCount c3 = reconnectCount c + 1"
      "reconnectDelay c3 = reconnectDelay c" "maxReconnects c3 = maxReconnects c"
      "conn c3 = conn c"
      by (simp_all add: c3_def)
    show "actions c4 = actions c @ failedAttempt net (reconnectDelay c)"
      "reconnectCount c4 = reconnectCount c + 1" "maxReconnects c4 = maxReconnects c"
      "\<not> connected c4" "errorChan c4 = errorChan c" "reconnectDelay c4 = reconnectDelay c"
      "conn c4 = conn c"
      using less.prems(1) by (simp_all add: c4_def r q failedAttempt_def)
  qed
  show ?case
  proof (cases "reconnectCount c4 < maxReconnects c4")
    case True
    have u: "attemptReconnect lay net now c = attemptReconnect lay net now c4"
      using f True
      by (subst attemptReconnect_unfold) (simp add: Let_def c3_def [symmetric] res_def [symmetric] c4_def [symmetric])
    have "nat (maxReconnects c4 - reconnectCount c4) < nat (maxReconnects c - reconnectCount c)"
      using less.prems a4 by simp
    note ih = less.hyps [OF this a4(4) True]
    have "nat (maxReconnects c - reconnectCount c) = Suc (nat (maxReconnects c4 - reconnectCount c4))"
      using True a4 by simp
    then show ?thesis using ih u a4 by simp
  next
    case False
    have u: "attemptReconnect lay net now c = pushError c4 ErrMaxReconnects"
      using f False
      by (subst attemptReconnect_unfold) (simp add: Let_def c3_def [symmetric] res_def [symmetric] c4_def [symmetric])
    have "maxReconnects c - reconnectCount c = 1" using False less.prems(2) a4 by simp
    then show ?thesis using u a4 by simp
  qed
qed

lemma handleDisconnect_unfold:
  "handleDisconnect lay net now c =
     (let c4 = pushError (clog ((if conn c then (act (c\<lparr>connected := False\<rparr>) ActClose)\<lparr>conn := False\<rparr>
                                  else c\<lparr>connected := False\<rparr>)) Warn ''Connection lost'')
                 ErrConnectionLost
      in if maxReconnects c > 0 \<and> reconnectCount c < maxReconnects c
         then attemptReconnect lay net now c4 else c4)"
  by (simp add: handleDisconnect_def Let_def)

text \<open>
  Claim C7, as stated, fails: the terminal error is sent to the error channel in a
  \<^verbatim>\<open>select\<close> with an empty \<^verbatim>\<open>default\<close> branch, so it is dropped when the channel
  (capacity 10) is full. The client with nine unread errors and a budget of three loses
  its connection: the error of the lost connection fills the channel, the three attempts
  fail, and no terminal error is in the channel.
\<close>

theorem terminal_error_dropped_counterexample:
  "maxReconnects client_unread = 3
   \<and> reconnectCount (handleDisconnect strokes net_down 0 client_unread) = 3
   \<and> sleeps (actions (handleDisconnect strokes net_down 0 client_unread)) = 3
   \<and> errorChan (handleDisconnect strokes net_down 0 client_unread) = replicate 10 ErrConnectionLost
   \<and> ErrMaxReconnects \<notin> set (errorChan (handleDisconnect strokes net_down 0 client_unread))"
  by code_simp

text \<open>
  Claim C7, amended. Let \<open>N\<close> be the budget \<^verbatim>\<open>maxReconnects\<close>. On whatever network, what
  \<^verbatim>\<open>handleDisconnect\<close> adds to the actions of the client (after closing the connection)
  has every dial right after a sleep, and no more sleeps, that is attempts, than \<open>N\<close> less
  the counter, hence no more than \<open>N\<close>; the counter stays within the budget. If \<open>N\<close> is
  positive, the counter is zero and every attempt fails, then the client makes exactly
  \<open>N\<close> attempts, each a sleep of \<^verbatim>\<open>reconnectDelay\<close> followed by the dial, the counter
  ends at \<open>N\<close>, the client is not connected, and the error channel receives the error of
  the lost connection and then the terminal error as far as it has room: both when at
  least two places are free, only the first when one place is free, none when it is
  full. After that no attempt is made any more: a further \<^verbatim>\<open>handleDisconnect\<close> adds
  no action.
\<close>

theorem reconnect_budget:
  "(\<exists>new. actions (handleDisconnect lay net now c) =
             actions c @ (if conn c then [ActClose] else []) @ new
      \<and> delayed False new
      \<and> sleeps new \<le> nat (maxReconnects c - reconnectCount c)
      \<and> (0 \<le> reconnectCount c \<longrightarrow> sleeps new \<le> nat (maxReconnects c))
      \<and> (0 \<le> reconnectCount c \<and> reconnectCount c \<le> maxReconnects c \<longrightarrow>
            reconnectCount (handleDisconnect lay net now c) \<le> maxReconnects c))
   \<and> (0 < maxReconnects c \<and> reconnectCount c = 0 \<and> (\<forall>n. \<not> (urlOk net \<and> dialOk net n)) \<longrightarrow>
        actions (handleDisconnect lay net now c) =
          actions c @ (if conn c then [ActClose] else [])
            @ concat (replicate (nat (maxReconnects c)) (failedAttempt net (reconnectDelay c)))
      \<and> reconnectCount (handleDisconnect lay net now c) = maxReconnects c
      \<and> \<not> connected (handleDisconnect lay net now c)
      \<and> (length (errorChan c) + 2 \<le> errorChanCap \<longrightarrow>
            errorChan (handleDisconnect lay net now c) =
              errorChan c @ [ErrConnectionLost, ErrMaxReconnects])
      \<and> (length (errorChan c) + 1 = errorChanCap \<longrightarrow>
            errorChan (handleDisconnect lay net now c) = errorChan c @ [ErrConnectionLost])
      \<and> (errorChanCap \<le> length (errorChan c) \<longrightarrow>
            errorChan (handleDisconnect lay net now c) = errorChan c)
      \<and> (\<forall>now2. actions (handleDisconnect lay net now2 (handleDisconnect lay net now c)) =
                   actions (handleDisconnect lay net now c)))"
proof (intro conjI impI)
  define c4 where "c4 = pushError (clog ((if conn c then (act (c\<lparr>connected := False\<rparr>) ActClose)\<lparr>conn := False\<rparr>
                                  else c\<lparr>connected := False\<rparr>)) Warn ''Connection lost'')
                 ErrConnectionLost"
  have a4: "actions c4 = actions c @ (if conn c then [ActClose] else [])"
    "reconnectCount c4 = reconnectCount c" "maxReconnects c4 = maxReconnects c"
    by (simp_all add: c4_def)
  show "\<exists>new. actions (handleDisconnect lay net now c) =
             actions c @ (if conn c then [ActClose] else []) @ new
      \<and> delayed False new
      \<and> sleeps new \<le> nat (maxReconnects c - reconnectCount c)
      \<and> (0 \<le> reconnectCount c \<longrightarrow> sleeps new \<le> nat (maxReconnects c))
      \<and> (0 \<le> reconnectCount c \<and> reconnectCount c \<le> maxReconnects c \<longrightarrow>
            reconnectCount (handleDisconnect lay net now c) \<le> maxReconnects c)"
  proof (cases "maxReconnects c > 0 \<and> reconnectCount c < maxReconnects c")
    case True
    then have u: "handleDisconnect lay net now c = attemptReconnect lay net now c4"
      by (simp add: handleDisconnect_unfold c4_def [symmetric] Let_def)
    from True a4 have "reconnectCount c4 < maxReconnects c4" by simp
    from attemptReconnect_bound [OF this, of lay net now] obtain new where
      "actions (attemptReconnect lay net now c4) = actions c4 @ new" "delayed False new"
      "int (sleeps new) \<le> maxReconnects c4 - reconnectCount c4"
      "0 \<le> reconnectCount c4 \<longrightarrow>
           0 \<le> reconnectCount (attemptReconnect lay net now c4)
         \<and> reconnectCount (attemptReconnect lay net now c4) \<le> maxReconnects c4"
      by blast
    then show ?thesis
      using u a4 by (intro exI [of _ new]) auto
  next
    case False
    then have u: "handleDisconnect lay net now c = c4"
      by (auto simp add: handleDisconnect_unfold c4_def [symmetric] Let_def)
    show ?thesis using u a4 by (intro exI [of _ "[]"]) simp
  qed
next
  assume h: "0 < maxReconnects c \<and> reconnectCount c = 0 \<and> (\<forall>n. \<not> (urlOk net \<and> dialOk net n))"
  define c4 where "c4 = pushError (clog ((if conn c then (act (c\<lparr>connected := False\<rparr>) ActClose)\<lparr>conn := False\<rparr>
                                  else c\<lparr>connected := False\<rparr>)) Warn ''Connection lost'')
                 ErrConnectionLost"
  have a4: "actions c4 = actions c @ (if conn c then [ActClose] else [])"
    "reconnectCount c4 = 0" "maxReconnects c4 = maxReconnects c" "\<not> connected c4"
    "reconnectDelay c4 = reconnectDelay c" "\<not> conn c4"
    "errorChan c4 = (if length (errorChan c) < errorChanCap then errorChan c @ [ErrConnectionLost]
                     else errorChan c)"
    using h by (simp_all add: c4_def)
  from h have u: "handleDisconnect lay net now c = attemptReconnect lay net now c4"
    by (simp add: handleDisconnect_unfold c4_def [symmetric] Let_def)
  have lt: "reconnectCount c4 < maxReconnects c4" using h a4 by simp
  from h have dn: "\<not> (urlOk net \<and> dialOk net n)" for n by simp
  note af = attemptReconnect_all_fail [OF a4(4) lt dn, of lay now, unfolded u [symmetric]]
  show t: "actions (handleDisconnect lay net now c) =
          actions c @ (if conn c then [ActClose] else [])
            @ concat (replicate (nat (maxReconnects c)) (failedAttempt net (reconnectDelay c)))"
    using af a4 by simp
  show k: "reconnectCount (handleDisconnect lay net now c) = maxReconnects c"
    using af a4 by simp
  show nc: "\<not> connected (handleDisconnect lay net now c)" using af by simp
  show "errorChan (handleDisconnect lay net now c) =
              errorChan c @ [ErrConnectionLost, ErrMaxReconnects]"
    if "length (errorChan c) + 2 \<le> errorChanCap"
    using af a4(7) that by simp
  show "errorChan (handleDisconnect lay net now c) = errorChan c @ [ErrConnectionLost]"
    if "length (errorChan c) + 1 = errorChanCap"
    using af a4(7) that by simp
  show "errorChan (handleDisconnect lay net now c) = errorChan c"
    if "errorChanCap \<le> length (errorChan c)"
    using af a4(7) that by simp
  show "\<forall>now2. actions (handleDisconnect lay net now2 (handleDisconnect lay net now c)) =
                   actions (handleDisconnect lay net now c)"
  proof
    fix now2
    define d where "d = handleDisconnect lay net now c"
    have m: "maxReconnects d = maxReconnects c"
      using attemptReconnect_bound [OF lt, of lay net now] a4(3) by (auto simp: d_def u)
    have "\<not> conn d" using af a4(6) by (simp add: d_def)
    then show "actions (handleDisconnect lay net now2 (handleDisconnect lay net now c)) =
                   actions (handleDisconnect lay net now c)"
      using k m by (simp add: handleDisconnect_unfold [of lay net now2 d] d_def [symmetric] Let_def)
  qed
qed


theorem reconnect_budget_witness:
  "actions (handleDisconnect strokes net_down 0 client0) =
     [ActClose, ActSleep (5 * Second), ActDial False, ActSleep (5 * Second), ActDial False,
      ActSleep (5 * Second), ActDial False]
   \<and> sleeps (actions (handleDisconnect strokes net_down 0 client0)) = 3
   \<and> reconnectCount (handleDisconnect strokes net_down 0 client0) = 3
   \<and> errorChan (handleDisconnect strokes net_down 0 client0) = [ErrConnectionLost, ErrMaxReconnects]
   \<and> actions (handleDisconnect strokes net_down 9 (handleDisconnect strokes net_down 0 client0)) =
       actions (handleDisconnect strokes net_down 0 client0)"
proof -
  have h: "0 < maxReconnects client0 \<and> reconnectCount client0 = 0
      \<and> (\<forall>n. \<not> (urlOk net_down \<and> dialOk net_down n))"
    by (simp add: client0_def net_down_def)
  have e: "length (errorChan client0) + 2 \<le> errorChanCap"
    by (simp add: client0_def errorChanCap_def)
  have f: "actions client0 = []" "conn client0" "maxReconnects client0 = 3"
    "reconnectDelay client0 = 5 * Second" "errorChan client0 = []" "urlOk net_down"
    by (simp_all add: client0_def net_down_def)
  from reconnect_budget [of strokes net_down 0 client0] h e
  have r: "actions (handleDisconnect strokes net_down 0 client0) =
          actions client0 @ (if conn client0 then [ActClose] else [])
            @ concat (replicate (nat (maxReconnects client0))
                        (failedAttempt net_down (reconnectDelay client0)))"
    "reconnectCount (handleDisconnect strokes net_down 0 client0) = maxReconnects client0"
    "errorChan (handleDisconnect strokes net_down 0 client0) =
              errorChan client0 @ [ErrConnectionLost, ErrMaxReconnects]"
    "\<forall>now2. actions (handleDisconnect strokes net_down now2 (handleDisconnect strokes net_down 0 client0)) =
                   actions (handleDisconnect strokes net_down 0 client0)"
    by blast+
  have three: "nat 3 = Suc (Suc (Suc 0))" by simp
  have a: "actions (handleDisconnect strokes net_down 0 client0) =
     [ActClose, ActSleep (5 * Second), ActDial False, ActSleep (5 * Second), ActDial False,
      ActSleep (5 * Second), ActDial False]"
    using r(1) f by (simp add: failedAttempt_def three del: replicate.simps) (simp add: numeral_3_eq_3)
  have s3: "sleeps (actions (handleDisconnect strokes net_down 0 client0)) = 3"
    unfolding a by simp
  from a s3 r(2,3,4) f show ?thesis by simp
qed

end
